theory Spec2Isabelle
  imports Complex_Main "HOL-Library.AList" "HOL-Library.Signed_Division"
begin

section \<open>Values, cells and the abstract syntax tree\<close>

text \<open>The enum \<open>Type\<close> of the interpreter; \<open>Type_INT\<close> is \<open>Type.INT\<close>.\<close>

datatype type_tag = Type_NIL | Type_INT | Type_STRING | Type_BOOL | Type_VOID | Type_OBJECT | Type_FUNCTION

text \<open>
  The three error kinds passed to the host's \<open>error\<close> call, and the ways a run can stop
  without a result: an interpreter error, an exception of the host language that nothing
  catches, or the evaluator of this model running out of fuel.
\<close>

datatype error_type = NAME_ERROR | TYPE_ERROR | FAULT_ERROR

datatype failure = Error error_type | Host_Exception string | Out_Of_Fuel

text \<open>
  A \<open>Cell\<close> is a mutable object that environments and field tables share by reference.
  It is modelled by its address in the list of all cells ever created; the cell's content
  is the list's entry at that address.
\<close>

type_synonym cell = nat

text \<open>A dict is an association list in insertion order; its keys are distinct.\<close>

type_synonym block = "(string \<times> cell) list"
type_synonym frame = "block list"
type_synonym env_stack = "frame list"

section \<open>Environment\<close>

text \<open>
  The list \<open>env\<close> of the class \<open>Environment\<close>: a stack of function frames, the last
  element on top; a frame is a stack of blocks, the last one innermost.
\<close>

definition enter_block :: "env_stack \<Rightarrow> failure + env_stack" where
  "enter_block env =
     (if env = [] then Inl (Host_Exception ''IndexError'')
      else Inr (butlast env @ [last env @ [[]]]))"

definition exit_block :: "env_stack \<Rightarrow> failure + env_stack" where
  "exit_block env =
     (if env = [] then Inl (Host_Exception ''IndexError'')
      else if last env = [] then Inl (Host_Exception ''IndexError'')
      else Inr (butlast env @ [butlast (last env)]))"

definition enter_func :: "env_stack \<Rightarrow> env_stack" where
  "enter_func env = env @ [[[]]]"

definition exit_func :: "env_stack \<Rightarrow> failure + env_stack" where
  "exit_func env =
     (if env = [] then Inl (Host_Exception ''IndexError'') else Inr (butlast env))"

text \<open>The two nested loops of \<open>get_current_cell\<close>, \<open>exists\<close> and \<open>set\<close>.\<close>

fun scan_blocks :: "block list \<Rightarrow> string \<Rightarrow> cell option" where
  "scan_blocks [] varname = None"
| "scan_blocks (block # blocks) varname =
     (case map_of block varname of
        Some c \<Rightarrow> Some c
      | None \<Rightarrow> scan_blocks blocks varname)"

fun scan_frames :: "frame list \<Rightarrow> string \<Rightarrow> cell option" where
  "scan_frames [] varname = None"
| "scan_frames (frame # frames) varname =
     (case scan_blocks (rev frame) varname of
        Some c \<Rightarrow> Some c
      | None \<Rightarrow> scan_frames frames varname)"

definition get_current_cell :: "env_stack \<Rightarrow> string \<Rightarrow> cell option" where
  "get_current_cell env varname = scan_frames (rev env) varname"

definition exists_env :: "env_stack \<Rightarrow> string \<Rightarrow> bool" where
  "exists_env env varname = (scan_frames (rev env) varname \<noteq> None)"

definition exists_in_current_block :: "env_stack \<Rightarrow> string \<Rightarrow> failure + bool" where
  "exists_in_current_block env varname =
     (if env = [] then Inl (Host_Exception ''IndexError'')
      else if last env = [] then Inl (Host_Exception ''IndexError'')
      else Inr (map_of (last (last env)) varname \<noteq> None))"

definition exists_in_function_scope :: "env_stack \<Rightarrow> string \<Rightarrow> failure + bool" where
  "exists_in_function_scope env varname =
     (if env = [] then Inl (Host_Exception ''IndexError'')
      else if last env = [] then Inl (Host_Exception ''IndexError'')
      else Inr (map_of (hd (last env)) varname \<noteq> None))"

text \<open>\<open>get\<close> reads the top frame only; the interpreter never calls it.\<close>

definition get_top :: "env_stack \<Rightarrow> string \<Rightarrow> failure + cell option" where
  "get_top env varname =
     (if env = [] then Inl (Host_Exception ''IndexError'')
      else Inr (scan_blocks (rev (last env)) varname))"

text \<open>
  \<open>fdef_function_cell\<close> binds a name to an existing cell in the first block of the top
  frame; \<open>fdef_function\<close> and \<open>fdef_block\<close> create the cell, which is here the next free
  address, given as \<open>c\<close>.
\<close>

definition fdef_function_cell :: "env_stack \<Rightarrow> string \<Rightarrow> cell \<Rightarrow> failure + (bool \<times> env_stack)" where
  "fdef_function_cell env varname c =
     (case exists_in_function_scope env varname of
        Inl e \<Rightarrow> Inl e
      | Inr True \<Rightarrow> Inr (False, env)
      | Inr False \<Rightarrow>
          Inr (True, butlast env @ [AList.update varname c (hd (last env)) # tl (last env)]))"

definition fdef_block_cell :: "env_stack \<Rightarrow> string \<Rightarrow> cell \<Rightarrow> failure + (bool \<times> env_stack)" where
  "fdef_block_cell env varname c =
     (case exists_in_current_block env varname of
        Inl e \<Rightarrow> Inl e
      | Inr True \<Rightarrow> Inr (False, env)
      | Inr False \<Rightarrow>
          Inr (True, butlast env @ [butlast (last env) @ [AList.update varname c (last (last env))]]))"

text \<open>\<open>set\<close> overwrites the content of the first cell found; the interpreter never calls it.\<close>

definition set_env :: "env_stack \<Rightarrow> 'v list \<Rightarrow> string \<Rightarrow> 'v \<Rightarrow> bool \<times> 'v list" where
  "set_env env cells varname val =
     (case scan_frames (rev env) varname of
        Some c \<Rightarrow> (True, cells[c := val])
      | None \<Rightarrow> (False, cells))"

section \<open>Abstract syntax\<close>

text \<open>
  The parser's \<open>Element\<close> nodes, one constructor per element type the interpreter tests
  for. \<open>Func_lit\<close> is a node of type \<open>FUNC_NODE\<close> in expression position (an anonymous
  function) with its \<open>name\<close>, \<open>args\<close> and \<open>statements\<close>; an argument node carries
  \<open>name\<close> and \<open>ref\<close>. \<open>Other_expr\<close> and \<open>Other_stmt\<close> stand for every other element type.
\<close>

datatype param = Param (param_name: string) (param_ref: bool)

datatype expr =
    Func_lit string "param list" "stmt list"
  | Int_lit int
  | String_lit string
  | Bool_lit bool
  | Nil_lit
  | New_object
  | Convert string expr
  | Qname string
  | Fcall string "expr list"
  | Bop string expr expr
  | Neg expr
  | Not_expr expr
  | Other_expr string
and stmt =
    Vardef string
  | Bvardef string
  | Assign string expr
  | Fcall_stmt string "expr list"
  | If_stmt expr "stmt list" "stmt list"
  | While_stmt expr "stmt list"
  | Return_stmt "expr option"
  | Other_stmt string

text \<open>A top-level function node, an interface node and the program node.\<close>

datatype func_node =
  Func_node (fn_elem_type: string) (fn_name: string) (fn_args: "param list")
    (fn_statements: "stmt list")

datatype iface_field =
    Field_var string
  | Field_func string "param list"
  | Field_other string

datatype iface_node = Interface_node (in_name: string) (in_fields: "iface_field list")

datatype program = Program (interfaces_of: "iface_node list") (functions_of: "func_node list")

text \<open>
  A function node after the interpreter has written the derived types into its \<open>dict\<close>:
  \<open>declared_type\<close> and \<open>interface\<close> on each argument, \<open>return_type\<close>, \<open>return_interface\<close>
  and \<open>param_types\<close> on the function.
\<close>

datatype formal =
  Formal (formal_name: string) (formal_ref: bool) (declared_type: type_tag)
    (formal_interface: "string option")

datatype func_def =
  Func_def (fd_elem_type: string) (fd_name: string) (fd_args: "formal list")
    (fd_statements: "stmt list") (return_type: type_tag) (return_interface: "string option")
    (fd_param_types: "type_tag list")

text \<open>
  Modelled from the spec: the constant \<open>FUNC_NODE\<close> of the base class, the element type
  of a function node, is not part of the source file.
\<close>

definition FUNC_NODE :: string where
  "FUNC_NODE = ''func''"

section \<open>Values\<close>

text \<open>
  \<open>FunctionValue\<close>: the identity of the object (the operator \<open>is\<close> compares it) is the
  number \<open>fv_id\<close>, fresh at every construction; \<open>closure_env\<close> refers to a captured
  environment stack by its index among all stack objects.
\<close>

datatype function_value =
  FunctionValue (fv_id: nat) (func_ast: func_def) (param_types: "type_tag list")
    (closure_env: "nat option")

text \<open>The payload \<open>v\<close> of a \<open>Value\<close>; \<open>PNone\<close> is \<open>None\<close>, \<open>PObj\<close> an object id.\<close>

datatype payload = PNone | PInt int | PStr string | PBool bool | PObj nat | PFunc function_value

datatype val = Value (t: type_tag) (v: payload)

datatype param_spec = Param_spec (ps_type: type_tag) (ps_interface: "string option") (ps_ref: bool)

datatype field_spec = Var_field type_tag "string option" | Func_field "param_spec list"

section \<open>Interpreter state\<close>

text \<open>
  The fields of the \<open>Interpreter\<close> object. \<open>self.env.env\<close> is a reference to a list that
  calls push to and pop from in place, and that the invocation of a closure replaces by the
  closure's captured list: \<open>env_lists\<close> holds every such list object and \<open>env\<close> the index of
  the current one. \<open>cells\<close> holds the content of every \<open>Cell\<close>. \<open>output_lines\<close> are the
  lines given to the host's \<open>output\<close>, \<open>input_lines\<close> the lines \<open>get_input\<close> will return.
\<close>

record interp =
  funcs :: "((string \<times> type_tag list) \<times> func_def) list"
  interfaces :: "(string \<times> (string \<times> field_spec) list) list"
  env_lists :: "env_stack list"
  env :: nat
  cells :: "val list"
  heap :: "(nat \<times> block) list"
  next_obj_id :: nat
  current_return_type :: type_tag
  current_return_interface :: "string option"
  next_fv_id :: nat
  output_lines :: "string list"
  input_lines :: "string list"

definition cur_env :: "interp \<Rightarrow> env_stack" where
  "cur_env st = env_lists st ! env st"

definition set_cur_env :: "env_stack \<Rightarrow> interp \<Rightarrow> interp" where
  "set_cur_env e st = st\<lparr>env_lists := (env_lists st)[env st := e]\<rparr>"

definition init_interp :: "string list \<Rightarrow> interp" where
  "init_interp inp =
     \<lparr>funcs = [], interfaces = [], env_lists = [[]], env = 0, cells = [], heap = [],
      next_obj_id = 1, current_return_type = Type_VOID, current_return_interface = None,
      next_fv_id = 0, output_lines = [], input_lines = inp\<rparr>"

definition new_object :: "interp \<Rightarrow> val \<times> interp" where
  "new_object st =
     (let obj_id = next_obj_id st
      in (Value Type_OBJECT (PObj obj_id),
          st\<lparr>next_obj_id := obj_id + 1, heap := AList.update obj_id [] (heap st)\<rparr>))"

text \<open>\<open>self.heap.get(val.v)\<close>: no entry for a payload that is not a known object id.\<close>

definition heap_get :: "(nat \<times> block) list \<Rightarrow> payload \<Rightarrow> block option" where
  "heap_get hp p = (case p of PObj i \<Rightarrow> map_of hp i | _ \<Rightarrow> None)"

section \<open>Types and interfaces from names\<close>

text \<open>\<open>str.isupper\<close> on a string of one character, for ASCII.\<close>

definition isupper_char :: "char \<Rightarrow> bool" where
  "isupper_char c = (c \<in> set ''ABCDEFGHIJKLMNOPQRSTUVWXYZ'')"

definition interface_from_suffix :: "char \<Rightarrow> string option" where
  "interface_from_suffix suffix = (if isupper_char suffix then Some [suffix] else None)"

text \<open>\<open>name[-1]\<close> raises IndexError on the empty string.\<close>

definition interface_from_name :: "string \<Rightarrow> failure + string option" where
  "interface_from_name name =
     (if name = [] then Inl (Host_Exception ''IndexError'')
      else Inr (interface_from_suffix (last name)))"

definition type_from_suffix :: "char \<Rightarrow> bool \<Rightarrow> failure + type_tag" where
  "type_from_suffix suffix is_func =
     (if suffix = CHR ''i'' then Inr Type_INT
      else if suffix = CHR ''s'' then Inr Type_STRING
      else if suffix = CHR ''b'' then Inr Type_BOOL
      else if suffix = CHR ''o'' then Inr Type_OBJECT
      else if suffix = CHR ''f'' then Inr Type_FUNCTION
      else if is_func \<and> suffix = CHR ''v'' then Inr Type_VOID
      else if isupper_char suffix then Inr Type_OBJECT
      else Inl (Error TYPE_ERROR))"

definition type_from_name :: "string \<Rightarrow> failure + type_tag" where
  "type_from_name name =
     (if name = [] then Inl (Host_Exception ''IndexError'')
      else let suffix = last name in
        if suffix = CHR ''i'' then Inr Type_INT
        else if suffix = CHR ''s'' then Inr Type_STRING
        else if suffix = CHR ''b'' then Inr Type_BOOL
        else if suffix = CHR ''o'' then Inr Type_OBJECT
        else if suffix = CHR ''f'' then Inr Type_FUNCTION
        else if isupper_char suffix then Inr Type_OBJECT
        else if suffix = CHR ''v'' then Inl (Error TYPE_ERROR)
        else Inl (Error TYPE_ERROR))"

definition is_nil_object :: "val \<Rightarrow> bool" where
  "is_nil_object val = (t val = Type_OBJECT \<and> v val = PNone)"

definition is_nil_value :: "val \<Rightarrow> bool" where
  "is_nil_value val = ((t val = Type_OBJECT \<or> t val = Type_FUNCTION) \<and> v val = PNone)"

definition default_value_for_type :: "type_tag \<Rightarrow> failure + val" where
  "default_value_for_type ty =
     (if ty = Type_INT then Inr (Value Type_INT (PInt 0))
      else if ty = Type_STRING then Inr (Value Type_STRING (PStr []))
      else if ty = Type_BOOL then Inr (Value Type_BOOL (PBool False))
      else if ty = Type_OBJECT then Inr (Value Type_OBJECT PNone)
      else if ty = Type_FUNCTION then Inr (Value Type_FUNCTION PNone)
      else if ty = Type_VOID then Inr (Value Type_VOID PNone)
      else Inl (Error TYPE_ERROR))"

text \<open>\<open>str.split('.')\<close>.\<close>

fun split_dots :: "string \<Rightarrow> string list" where
  "split_dots [] = [[]]"
| "split_dots (c # cs) =
     (if c = CHR ''.'' then [] # split_dots cs
      else (case split_dots cs of
              [] \<Rightarrow> [[c]]
            | part # parts \<Rightarrow> (c # part) # parts))"

definition interface_for_qname :: "string \<Rightarrow> failure + string option" where
  "interface_for_qname qname =
     (let parts = split_dots qname in
      if length parts = 1 then interface_from_name (hd parts)
      else interface_from_name (last parts))"

section \<open>Structural interface conformance\<close>

text \<open>
  The loop of \<open>object_satisfies_interface\<close> over the parameters of a function field:
  \<open>False\<close> at the first pair that differs.
\<close>

fun check_params :: "formal list \<Rightarrow> param_spec list \<Rightarrow> bool" where
  "check_params (formal # formals) (required # requireds) =
     (if formal_ref formal \<noteq> ps_ref required then False
      else if ps_type required = Type_OBJECT \<and> ps_interface required = None then
        (if declared_type formal \<noteq> Type_OBJECT then False
         else check_params formals requireds)
      else if ps_type required = Type_OBJECT \<and> ps_interface required \<noteq> None then
        (if declared_type formal = Type_OBJECT \<and> formal_interface formal = ps_interface required
         then check_params formals requireds else False)
      else
        (if declared_type formal = ps_type required \<and> formal_interface formal = ps_interface required
         then check_params formals requireds else False))"
| "check_params _ _ = True"

text \<open>
  \<open>object_satisfies_interface\<close> calls itself on the fields that carry an interface; on a
  cyclic object graph the recursion does not end, so the model counts the nesting down
  from \<open>n\<close>. \<open>satisfies_fields\<close> is its loop over the fields of the interface.
\<close>

fun object_satisfies_interface ::
  "nat \<Rightarrow> interp \<Rightarrow> string option \<Rightarrow> val \<Rightarrow> failure + bool"
and satisfies_fields ::
  "nat \<Rightarrow> interp \<Rightarrow> block \<Rightarrow> (string \<times> field_spec) list \<Rightarrow> failure + bool"
where
  "object_satisfies_interface n st interface_name val =
     (case interface_name of
        None \<Rightarrow> Inr True
      | Some iname \<Rightarrow>
          if t val \<noteq> Type_OBJECT then Inr False
          else if v val = PNone then Inr True
          else (case map_of (interfaces st) iname of
                  None \<Rightarrow> Inl (Error NAME_ERROR)
                | Some ifields \<Rightarrow>
                    (case heap_get (heap st) (v val) of
                       None \<Rightarrow> Inl (Error FAULT_ERROR)
                     | Some object_fields \<Rightarrow>
                         (case n of
                            0 \<Rightarrow> Inl Out_Of_Fuel
                          | Suc m \<Rightarrow> satisfies_fields m st object_fields ifields))))"
| "satisfies_fields n st object_fields [] = Inr True"
| "satisfies_fields n st object_fields ((fname, spec) # rest) =
     (case map_of object_fields fname of
        None \<Rightarrow> Inr False
      | Some c \<Rightarrow>
          (case spec of
             Var_field ty finterface \<Rightarrow>
               if t (cells st ! c) \<noteq> ty then Inr False
               else (case finterface of
                       None \<Rightarrow> satisfies_fields n st object_fields rest
                     | Some fi \<Rightarrow>
                         if t (cells st ! c) \<noteq> Type_OBJECT then Inr False
                         else (case object_satisfies_interface n st (Some fi) (cells st ! c) of
                                 Inl e \<Rightarrow> Inl e
                               | Inr ok \<Rightarrow>
                                   if ok then satisfies_fields n st object_fields rest
                                   else Inr False))
           | Func_field required_params \<Rightarrow>
               (case v (cells st ! c) of
                  PFunc fv \<Rightarrow>
                    if t (cells st ! c) \<noteq> Type_FUNCTION then Inr False
                    else if length (fd_args (func_ast fv)) \<noteq> length required_params then Inr False
                    else if check_params (fd_args (func_ast fv)) required_params
                    then satisfies_fields n st object_fields rest
                    else Inr False
                | PNone \<Rightarrow> Inr False
                | _ \<Rightarrow>
                    if t (cells st ! c) \<noteq> Type_FUNCTION then Inr False
                    else Inl (Host_Exception ''AttributeError''))))"

section \<open>Qualified names\<close>

text \<open>
  The loop over the intermediate segments in \<open>get_qname_cell\<close> and, with the same text,
  in \<open>set_qname_value\<close>.
\<close>

fun walk_intermediates :: "interp \<Rightarrow> string list \<Rightarrow> val \<Rightarrow> failure + val" where
  "walk_intermediates st [] current_val = Inr current_val"
| "walk_intermediates st (field # rest) current_val =
     (if t current_val \<noteq> Type_OBJECT then Inl (Error TYPE_ERROR)
      else if v current_val = PNone then Inl (Error FAULT_ERROR)
      else (case heap_get (heap st) (v current_val) of
              None \<Rightarrow> Inl (Error FAULT_ERROR)
            | Some obj_fields \<Rightarrow>
                (case map_of obj_fields field of
                   None \<Rightarrow> Inl (Error NAME_ERROR)
                 | Some field_cell \<Rightarrow>
                     (case type_from_name field of
                        Inl e \<Rightarrow> Inl e
                      | Inr ft \<Rightarrow>
                          if ft \<noteq> Type_OBJECT then Inl (Error TYPE_ERROR)
                          else walk_intermediates st rest (cells st ! field_cell)))))"

text \<open>
  The loop in \<open>get_qname_cell_and_owner\<close>: the type of the field's name is computed (which
  can raise), and where it is \<open>OBJECT\<close> the value is kept in a local variable that nothing
  reads afterwards; no error is raised for another type.
\<close>

fun walk_intermediates_owner :: "interp \<Rightarrow> string list \<Rightarrow> val \<Rightarrow> failure + val" where
  "walk_intermediates_owner st [] current_val = Inr current_val"
| "walk_intermediates_owner st (field # rest) current_val =
     (if t current_val \<noteq> Type_OBJECT then Inl (Error TYPE_ERROR)
      else if v current_val = PNone then Inl (Error FAULT_ERROR)
      else (case heap_get (heap st) (v current_val) of
              None \<Rightarrow> Inl (Error FAULT_ERROR)
            | Some obj_fields \<Rightarrow>
                (case map_of obj_fields field of
                   None \<Rightarrow> Inl (Error NAME_ERROR)
                 | Some field_cell \<Rightarrow>
                     (case type_from_name field of
                        Inl e \<Rightarrow> Inl e
                      | Inr ft \<Rightarrow>
                          walk_intermediates_owner st rest (cells st ! field_cell)))))"

text \<open>The checks on the terminal object and the lookup of the final field.\<close>

definition final_field_cell :: "interp \<Rightarrow> val \<Rightarrow> string \<Rightarrow> failure + cell" where
  "final_field_cell st current_val final_field =
     (if t current_val \<noteq> Type_OBJECT then Inl (Error TYPE_ERROR)
      else if v current_val = PNone then Inl (Error FAULT_ERROR)
      else (case heap_get (heap st) (v current_val) of
              None \<Rightarrow> Inl (Error FAULT_ERROR)
            | Some obj_fields \<Rightarrow>
                (case map_of obj_fields final_field of
                   None \<Rightarrow> Inl (Error NAME_ERROR)
                 | Some c \<Rightarrow> Inr c)))"

definition get_qname_cell :: "interp \<Rightarrow> string \<Rightarrow> failure + cell" where
  "get_qname_cell st qname =
     (let parts = split_dots qname; base_name = hd parts in
      if \<not> exists_env (cur_env st) base_name then Inl (Error NAME_ERROR)
      else if length parts = 1 then
        (case get_current_cell (cur_env st) base_name of
           None \<Rightarrow> Inl (Error NAME_ERROR)
         | Some c \<Rightarrow> Inr c)
      else (case type_from_name base_name of
              Inl e \<Rightarrow> Inl e
            | Inr bt \<Rightarrow>
                if bt \<noteq> Type_OBJECT then Inl (Error TYPE_ERROR)
                else (case get_current_cell (cur_env st) base_name of
                        None \<Rightarrow> Inl (Error NAME_ERROR)
                      | Some base_cell \<Rightarrow>
                          (case walk_intermediates st (butlast (tl parts)) (cells st ! base_cell) of
                             Inl e \<Rightarrow> Inl e
                           | Inr current_val \<Rightarrow> final_field_cell st current_val (last parts)))))"

definition get_qname_cell_and_owner :: "interp \<Rightarrow> string \<Rightarrow> failure + (cell \<times> val option)" where
  "get_qname_cell_and_owner st qname =
     (let parts = split_dots qname; base_name = hd parts in
      if \<not> exists_env (cur_env st) base_name then Inl (Error NAME_ERROR)
      else if length parts = 1 then
        (case get_current_cell (cur_env st) base_name of
           None \<Rightarrow> Inl (Error NAME_ERROR)
         | Some c \<Rightarrow> Inr (c, None))
      else (case type_from_name base_name of
              Inl e \<Rightarrow> Inl e
            | Inr bt \<Rightarrow>
                if bt \<noteq> Type_OBJECT then Inl (Error TYPE_ERROR)
                else (case get_current_cell (cur_env st) base_name of
                        None \<Rightarrow> Inl (Error NAME_ERROR)
                      | Some base_cell \<Rightarrow>
                          (case walk_intermediates_owner st (butlast (tl parts))
                                  (cells st ! base_cell) of
                             Inl e \<Rightarrow> Inl e
                           | Inr current_val \<Rightarrow>
                               (case final_field_cell st current_val (last parts) of
                                  Inl e \<Rightarrow> Inl e
                                | Inr c \<Rightarrow> Inr (c, Some current_val))))))"

definition get_qname_value :: "interp \<Rightarrow> string \<Rightarrow> failure + val" where
  "get_qname_value st qname =
     (case get_qname_cell st qname of
        Inl e \<Rightarrow> Inl e
      | Inr c \<Rightarrow> Inr (cells st ! c))"

text \<open>
  The check of the value against the type of the assigned name, written twice in
  \<open>set_qname_value\<close>: a nil value takes the tag of an object or function target.
\<close>

definition assign_check :: "type_tag \<Rightarrow> val \<Rightarrow> failure + val" where
  "assign_check left_type val =
     (if v val = PNone \<and> (t val = Type_OBJECT \<or> t val = Type_FUNCTION) then
        (if left_type = Type_OBJECT \<or> left_type = Type_FUNCTION then Inr (Value left_type PNone)
         else Inl (Error TYPE_ERROR))
      else if left_type = Type_OBJECT then
        (if t val \<noteq> Type_OBJECT then Inl (Error TYPE_ERROR) else Inr val)
      else if left_type = Type_FUNCTION then
        (if t val \<noteq> Type_FUNCTION then Inl (Error TYPE_ERROR) else Inr val)
      else
        (if left_type \<noteq> t val then Inl (Error TYPE_ERROR) else Inr val))"

text \<open>The interface check that follows it: a Type error unless the value conforms.\<close>

definition interface_check :: "nat \<Rightarrow> interp \<Rightarrow> string option \<Rightarrow> val \<Rightarrow> failure + unit" where
  "interface_check n st expected_interface val =
     (case expected_interface of
        None \<Rightarrow> Inr ()
      | Some i \<Rightarrow>
          (case object_satisfies_interface n st (Some i) val of
             Inl e \<Rightarrow> Inl e
           | Inr ok \<Rightarrow> if ok then Inr () else Inl (Error TYPE_ERROR)))"

definition set_qname_value :: "nat \<Rightarrow> interp \<Rightarrow> string \<Rightarrow> val \<Rightarrow> failure + interp" where
  "set_qname_value n st qname val =
     (let parts = split_dots qname; base_name = hd parts in
      if \<not> exists_env (cur_env st) base_name then Inl (Error NAME_ERROR)
      else if length parts = 1 then
        (case type_from_name base_name of
           Inl e \<Rightarrow> Inl e
         | Inr left_type \<Rightarrow>
             (case interface_from_name base_name of
                Inl e \<Rightarrow> Inl e
              | Inr expected_interface \<Rightarrow>
                  (case assign_check left_type val of
                     Inl e \<Rightarrow> Inl e
                   | Inr val' \<Rightarrow>
                       (case interface_check n st expected_interface val' of
                          Inl e \<Rightarrow> Inl e
                        | Inr _ \<Rightarrow>
                            (case get_current_cell (cur_env st) base_name of
                               None \<Rightarrow> Inl (Error NAME_ERROR)
                             | Some c \<Rightarrow> Inr (st\<lparr>cells := (cells st)[c := val']\<rparr>))))))
      else (case type_from_name base_name of
              Inl e \<Rightarrow> Inl e
            | Inr bt \<Rightarrow>
                if bt \<noteq> Type_OBJECT then Inl (Error TYPE_ERROR)
                else (case get_current_cell (cur_env st) base_name of
                        None \<Rightarrow> Inl (Error NAME_ERROR)
                      | Some base_cell \<Rightarrow>
     (case walk_intermediates st (butlast (tl parts)) (cells st ! base_cell) of
        Inl e \<Rightarrow> Inl e
      | Inr current_val \<Rightarrow>
          if t current_val \<noteq> Type_OBJECT then Inl (Error TYPE_ERROR)
          else if v current_val = PNone then Inl (Error FAULT_ERROR)
          else (case v current_val of
                  PObj obj_id \<Rightarrow>
                    (case map_of (heap st) obj_id of
                       None \<Rightarrow> Inl (Error FAULT_ERROR)
                     | Some obj_fields \<Rightarrow>
                         (let final_field = last parts in
                          case type_from_name final_field of
                            Inl e \<Rightarrow> Inl e
                          | Inr final_type \<Rightarrow>
                              (case interface_from_name final_field of
                                 Inl e \<Rightarrow> Inl e
                               | Inr expected_interface \<Rightarrow>
                                   (case assign_check final_type val of
                                      Inl e \<Rightarrow> Inl e
                                    | Inr val' \<Rightarrow>
                                        (case interface_check n st expected_interface val' of
                                           Inl e \<Rightarrow> Inl e
                                         | Inr _ \<Rightarrow>
                                             (case map_of obj_fields final_field of
                                                Some c \<Rightarrow> Inr (st\<lparr>cells := (cells st)[c := val']\<rparr>)
                                              | None \<Rightarrow>
                                                  Inr (st\<lparr>cells := cells st @ [val'],
                                                          heap := AList.update obj_id
                                                            (AList.update final_field (length (cells st)) obj_fields)
                                                            (heap st)\<rparr>)))))))
                | _ \<Rightarrow> Inl (Error FAULT_ERROR))))))"

section \<open>Strings of the host language\<close>

text \<open>\<open>str\<close> on an integer: the decimal digits, with a minus sign below zero.\<close>

definition digit_char :: "nat \<Rightarrow> char" where
  "digit_char d = ''0123456789'' ! d"

fun str_nat :: "nat \<Rightarrow> string" where
  "str_nat n = (if n < 10 then [digit_char n] else str_nat (n div 10) @ [digit_char (n mod 10)])"

definition str_int :: "int \<Rightarrow> string" where
  "str_int i = (if i < 0 then CHR ''-'' # str_nat (nat (- i)) else str_nat (nat i))"

text \<open>
  \<open>str\<close> on the payload of a value, as \<open>print\<close> applies it. The text of a function object
  is an address in the host's memory; the model writes a fixed text for it.
\<close>

definition str_payload :: "payload \<Rightarrow> string" where
  "str_payload p =
     (case p of
        PNone \<Rightarrow> ''None''
      | PInt i \<Rightarrow> str_int i
      | PStr s \<Rightarrow> s
      | PBool b \<Rightarrow> (if b then ''True'' else ''False'')
      | PObj i \<Rightarrow> str_nat i
      | PFunc fv \<Rightarrow> ''<FunctionValue>'')"

text \<open>\<open>str.lower\<close>, for ASCII.\<close>

definition lower_char :: "char \<Rightarrow> char" where
  "lower_char c = (if isupper_char c then char_of (of_char c + (32::nat)) else c)"

definition lower :: "string \<Rightarrow> string" where
  "lower s = map lower_char s"

text \<open>
  \<open>int\<close> on a string: white space around, an optional sign, then decimal digits, where
  single underscores may stand between digits; \<open>None\<close> is the ValueError.
\<close>

definition is_space :: "char \<Rightarrow> bool" where
  "is_space c = (of_char c \<in> set [9, 10, 11, 12, 13, 28, 29, 30, 31, 32 :: nat])"

definition strip :: "string \<Rightarrow> string" where
  "strip s = rev (dropWhile is_space (rev (dropWhile is_space s)))"

definition digit_of :: "char \<Rightarrow> nat option" where
  "digit_of c = (if c \<in> set ''0123456789'' then Some (of_char c - 48) else None)"

fun parse_digits :: "bool \<Rightarrow> nat \<Rightarrow> string \<Rightarrow> nat option" where
  "parse_digits after_digit acc [] = (if after_digit then Some acc else None)"
| "parse_digits after_digit acc (c # cs) =
     (if c = CHR ''_'' then (if after_digit then parse_digits False acc cs else None)
      else (case digit_of c of
              None \<Rightarrow> None
            | Some d \<Rightarrow> parse_digits True (10 * acc + d) cs))"

definition py_int :: "string \<Rightarrow> int option" where
  "py_int s =
     (case strip s of
        [] \<Rightarrow> None
      | c # cs \<Rightarrow>
          if c = CHR ''-'' then map_option (\<lambda>n. - int n) (parse_digits False 0 cs)
          else if c = CHR ''+'' then map_option int (parse_digits False 0 cs)
          else map_option int (parse_digits False 0 (c # cs)))"

section \<open>Conversions and operators\<close>

definition convert_value :: "string \<Rightarrow> val \<Rightarrow> failure + val" where
  "convert_value to_type val =
     (if to_type = ''int'' then
        (if t val = Type_INT then Inr val
         else if t val = Type_STRING then
           (case v val of
              PStr s \<Rightarrow>
                (case py_int s of
                   Some i \<Rightarrow> Inr (Value Type_INT (PInt i))
                 | None \<Rightarrow> Inl (Error TYPE_ERROR))
            | _ \<Rightarrow> Inl (Error TYPE_ERROR))
         else if t val = Type_BOOL then
           Inr (Value Type_INT (PInt (if v val = PBool True then 1 else 0)))
         else Inl (Error TYPE_ERROR))
      else if to_type = ''str'' then
        (if t val = Type_STRING then Inr val
         else if t val = Type_INT then Inr (Value Type_STRING (PStr (str_payload (v val))))
         else if t val = Type_BOOL then
           Inr (Value Type_STRING (PStr (if v val = PBool True then ''true'' else ''false'')))
         else Inl (Error TYPE_ERROR))
      else if to_type = ''bool'' then
        (if t val = Type_BOOL then Inr val
         else if t val = Type_INT then Inr (Value Type_BOOL (PBool (v val \<noteq> PInt 0)))
         else if t val = Type_STRING then Inr (Value Type_BOOL (PBool (v val \<noteq> PStr [])))
         else Inl (Error TYPE_ERROR))
      else Inl (Error TYPE_ERROR))"

text \<open>
  Equality of two function values that are not nil: two anonymous functions are equal when
  they are the same object, two named ones when they refer to the same node of the tree
  with the same parameter types; the nodes of the function table are told apart by their
  keys, name and parameter types.
\<close>

definition function_values_equal :: "function_value \<Rightarrow> function_value \<Rightarrow> bool" where
  "function_values_equal fvl fvr =
     (let is_lambda_l = (fd_elem_type (func_ast fvl) = FUNC_NODE);
          is_lambda_r = (fd_elem_type (func_ast fvr) = FUNC_NODE)
      in if is_lambda_l \<and> is_lambda_r then fv_id fvl = fv_id fvr
         else if \<not> is_lambda_l \<and> \<not> is_lambda_r then
           fd_name (func_ast fvl) = fd_name (func_ast fvr) \<and>
           fd_param_types (func_ast fvl) = fd_param_types (func_ast fvr) \<and>
           param_types fvl = param_types fvr
         else False)"

definition values_equal :: "val \<Rightarrow> val \<Rightarrow> failure + bool" where
  "values_equal vl vr =
     (if is_nil_value vl \<and> is_nil_value vr then Inr True
      else if is_nil_value vl \<or> is_nil_value vr then Inr False
      else if t vl = Type_OBJECT \<and> t vr = Type_OBJECT then Inr (v vl = v vr)
      else if t vl = Type_FUNCTION \<and> t vr = Type_FUNCTION then
        (case (v vl, v vr) of
           (PFunc fvl, PFunc fvr) \<Rightarrow> Inr (function_values_equal fvl fvr)
         | _ \<Rightarrow> Inl (Host_Exception ''AttributeError''))
      else if t vl = t vr then Inr (v vl = v vr)
      else Inr False)"

text \<open>
  \<open>__eval_binary_op\<close>. The operator \<open>//\<close> of the host language is the floor quotient,
  \<open>div\<close> on \<open>int\<close>, and raises ZeroDivisionError on a zero divisor.
\<close>

definition eval_binary_op :: "string \<Rightarrow> val \<Rightarrow> val \<Rightarrow> failure + val" where
  "eval_binary_op kind vl vr =
     (if kind = ''=='' \<or> kind = ''!='' then
        (case values_equal vl vr of
           Inl e \<Rightarrow> Inl e
         | Inr eq \<Rightarrow> Inr (Value Type_BOOL (PBool (if kind = ''!='' then \<not> eq else eq))))
      else
        (case (t vl, v vl, t vr, v vr) of
           (Type_STRING, PStr a, Type_STRING, PStr b) \<Rightarrow>
             if kind = ''+'' then Inr (Value Type_STRING (PStr (a @ b)))
             else Inl (Error TYPE_ERROR)
         | (Type_INT, PInt a, Type_INT, PInt b) \<Rightarrow>
             if kind = ''+'' then Inr (Value Type_INT (PInt (a + b)))
             else if kind = ''-'' then Inr (Value Type_INT (PInt (a - b)))
             else if kind = ''*'' then Inr (Value Type_INT (PInt (a * b)))
             else if kind = ''/'' then
               (if b = 0 then Inl (Host_Exception ''ZeroDivisionError'')
                else Inr (Value Type_INT (PInt (a div b))))
             else if kind = ''<'' then Inr (Value Type_BOOL (PBool (a < b)))
             else if kind = ''<='' then Inr (Value Type_BOOL (PBool (a \<le> b)))
             else if kind = ''>'' then Inr (Value Type_BOOL (PBool (a > b)))
             else if kind = ''>='' then Inr (Value Type_BOOL (PBool (a \<ge> b)))
             else Inl (Error TYPE_ERROR)
         | (Type_BOOL, PBool a, Type_BOOL, PBool b) \<Rightarrow>
             if kind = ''&&'' then Inr (Value Type_BOOL (PBool (a \<and> b)))
             else if kind = ''||'' then Inr (Value Type_BOOL (PBool (a \<or> b)))
             else Inl (Error TYPE_ERROR)
         | _ \<Rightarrow> Inl (Error TYPE_ERROR)))"

definition bops :: "string list" where
  "bops = [''+'', ''-'', ''*'', ''/'', ''=='', ''!='', ''>'', ''>='', ''<'', ''<='', ''||'', ''&&'']"

section \<open>Closure capture\<close>

text \<open>
  \<open>capture_env_for_lambda\<close>: the three nested loops. Every binding of the copy gets a new
  cell, at the next free address; a value of tag Int, String or Bool is rebuilt from its tag
  and payload, any other value is stored as it is.
\<close>

fun capture_block :: "block \<Rightarrow> val list \<Rightarrow> block \<times> val list" where
  "capture_block [] cs = ([], cs)"
| "capture_block ((name, c) # items) cs =
     (case capture_block items
             (cs @ [if t (cs ! c) = Type_INT \<or> t (cs ! c) = Type_STRING \<or> t (cs ! c) = Type_BOOL
                    then Value (t (cs ! c)) (v (cs ! c)) else cs ! c]) of
        (new_block, cs') \<Rightarrow> ((name, length cs) # new_block, cs'))"

fun capture_frame :: "frame \<Rightarrow> val list \<Rightarrow> frame \<times> val list" where
  "capture_frame [] cs = ([], cs)"
| "capture_frame (block # blocks) cs =
     (case capture_block block cs of
        (new_block, cs1) \<Rightarrow>
          (case capture_frame blocks cs1 of
             (new_frame, cs2) \<Rightarrow> (new_block # new_frame, cs2)))"

fun capture_stack :: "env_stack \<Rightarrow> val list \<Rightarrow> env_stack \<times> val list" where
  "capture_stack [] cs = ([], cs)"
| "capture_stack (frame # frames) cs =
     (case capture_frame frame cs of
        (new_frame, cs1) \<Rightarrow>
          (case capture_stack frames cs1 of
             (captured_stack, cs2) \<Rightarrow> (new_frame # captured_stack, cs2)))"

text \<open>The captured stack is a new list object: it gets the next index of \<open>env_lists\<close>.\<close>

definition capture_env_for_lambda :: "interp \<Rightarrow> nat \<times> interp" where
  "capture_env_for_lambda st =
     (case capture_stack (cur_env st) (cells st) of
        (captured_stack, cs) \<Rightarrow>
          (length (env_lists st),
           st\<lparr>env_lists := env_lists st @ [captured_stack], cells := cs\<rparr>))"

section \<open>Function table and interface table\<close>

text \<open>
  The derivation of the declared type and interface of every argument, written out in
  \<open>__create_function_table\<close> and again for an anonymous function in \<open>__eval_expr\<close>.
\<close>

fun annotate_args :: "param list \<Rightarrow> failure + formal list" where
  "annotate_args [] = Inr []"
| "annotate_args (arg # rest) =
     (if param_name arg = [] then Inl (Host_Exception ''IndexError'')
      else (case (if isupper_char (last (param_name arg)) then Inr Type_OBJECT
                  else type_from_suffix (last (param_name arg)) False) of
              Inl e \<Rightarrow> Inl e
            | Inr ptype \<Rightarrow>
                (case annotate_args rest of
                   Inl e \<Rightarrow> Inl e
                 | Inr formals \<Rightarrow>
                     Inr (Formal (param_name arg) (param_ref arg) ptype
                            (if isupper_char (last (param_name arg))
                             then Some [last (param_name arg)] else None) # formals))))"

text \<open>The return type and return interface from the last character of a function's name.\<close>

definition return_of_name :: "string \<Rightarrow> failure + (type_tag \<times> string option)" where
  "return_of_name name =
     (if name = [] then Inl (Host_Exception ''IndexError'')
      else if isupper_char (last name) then Inr (Type_OBJECT, Some [last name])
      else (case type_from_suffix (last name) True of
              Inl e \<Rightarrow> Inl e
            | Inr rtype \<Rightarrow> Inr (rtype, None)))"

fun create_function_table ::
  "func_node list \<Rightarrow> ((string \<times> type_tag list) \<times> func_def) list
     \<Rightarrow> failure + ((string \<times> type_tag list) \<times> func_def) list" where
  "create_function_table [] table = Inr table"
| "create_function_table (func # rest) table =
     (case (if fn_name func = ''main'' then
              (if length (fn_args func) \<noteq> 0 then Inl (Error NAME_ERROR)
               else Inr (Type_VOID, None))
            else return_of_name (fn_name func)) of
        Inl e \<Rightarrow> Inl e
      | Inr (rtype, rinterface) \<Rightarrow>
          (case annotate_args (fn_args func) of
             Inl e \<Rightarrow> Inl e
           | Inr formals \<Rightarrow>
               if map_of table (fn_name func, map declared_type formals) \<noteq> None
               then Inl (Error NAME_ERROR)
               else create_function_table rest
                      (AList.update (fn_name func, map declared_type formals)
                         (Func_def (fn_elem_type func) (fn_name func) formals (fn_statements func)
                            rtype rinterface (map declared_type formals))
                         table)))"

definition get_function ::
  "interp \<Rightarrow> string \<Rightarrow> type_tag list \<Rightarrow> failure + func_def" where
  "get_function st name ptypes =
     (case map_of (funcs st) (name, ptypes) of
        None \<Rightarrow> Inl (Error NAME_ERROR)
      | Some func \<Rightarrow> Inr func)"

text \<open>The parameters of a function field of an interface.\<close>

fun interface_params ::
  "(string \<times> (string \<times> field_spec) list) list \<Rightarrow> param list \<Rightarrow> failure + param_spec list" where
  "interface_params table [] = Inr []"
| "interface_params table (arg # rest) =
     (case type_from_name (param_name arg) of
        Inl e \<Rightarrow> Inl e
      | Inr ptype \<Rightarrow>
          (case interface_from_name (param_name arg) of
             Inl e \<Rightarrow> Inl e
           | Inr pinterface \<Rightarrow>
               (case pinterface of
                  Some i \<Rightarrow>
                    (case map_of table i of
                       None \<Rightarrow> Inl (Error NAME_ERROR)
                     | Some _ \<Rightarrow>
                         (case interface_params table rest of
                            Inl e \<Rightarrow> Inl e
                          | Inr ps \<Rightarrow> Inr (Param_spec ptype pinterface (param_ref arg) # ps)))
                | None \<Rightarrow>
                    (case interface_params table rest of
                       Inl e \<Rightarrow> Inl e
                     | Inr ps \<Rightarrow> Inr (Param_spec ptype pinterface (param_ref arg) # ps)))))"

text \<open>The fields of one interface; \<open>table\<close> holds the interfaces built before it.\<close>

fun interface_fields ::
  "(string \<times> (string \<times> field_spec) list) list \<Rightarrow> iface_field list
     \<Rightarrow> (string \<times> field_spec) list \<Rightarrow> failure + (string \<times> field_spec) list" where
  "interface_fields table [] fields_info = Inr fields_info"
| "interface_fields table (Field_var fname # rest) fields_info =
     (if map_of fields_info fname \<noteq> None then Inl (Error NAME_ERROR)
      else (case type_from_name fname of
              Inl e \<Rightarrow> Inl e
            | Inr ftype \<Rightarrow>
                (case interface_from_name fname of
                   Inl e \<Rightarrow> Inl e
                 | Inr finterface \<Rightarrow>
                     (case finterface of
                        Some i \<Rightarrow>
                          (case map_of table i of
                             None \<Rightarrow> Inl (Error NAME_ERROR)
                           | Some _ \<Rightarrow>
                               interface_fields table rest
                                 (AList.update fname (Var_field ftype finterface) fields_info))
                      | None \<Rightarrow>
                          interface_fields table rest
                            (AList.update fname (Var_field ftype finterface) fields_info)))))"
| "interface_fields table (Field_func fname params # rest) fields_info =
     (if map_of fields_info fname \<noteq> None then Inl (Error NAME_ERROR)
      else (case interface_params table params of
              Inl e \<Rightarrow> Inl e
            | Inr params_info \<Rightarrow>
                interface_fields table rest
                  (AList.update fname (Func_field params_info) fields_info)))"
| "interface_fields table (Field_other fname # rest) fields_info =
     (if map_of fields_info fname \<noteq> None then Inl (Error NAME_ERROR)
      else Inl (Error NAME_ERROR))"

fun create_interface_table ::
  "iface_node list \<Rightarrow> (string \<times> (string \<times> field_spec) list) list
     \<Rightarrow> failure + (string \<times> (string \<times> field_spec) list) list" where
  "create_interface_table [] table = Inr table"
| "create_interface_table (interface_node # rest) table =
     (if \<not> (length (in_name interface_node) = 1 \<and> isupper_char (hd (in_name interface_node)))
      then Inl (Error NAME_ERROR)
      else if map_of table (in_name interface_node) \<noteq> None then Inl (Error NAME_ERROR)
      else (case interface_fields table (in_fields interface_node) [] of
              Inl e \<Rightarrow> Inl e
            | Inr fields_info \<Rightarrow>
                create_interface_table rest
                  (AList.update (in_name interface_node) fields_info table)))"

text \<open>
  \<open>make_named_function_value\<close>: the functions of the table with the given name, whatever
  their parameters.
\<close>

definition make_named_function_value :: "interp \<Rightarrow> string \<Rightarrow> failure + (val \<times> interp)" where
  "make_named_function_value st name =
     (case map snd (filter (\<lambda>((fname, ptypes), func). fname = name) (funcs st)) of
        [] \<Rightarrow> Inl (Error NAME_ERROR)
      | [func_def] \<Rightarrow>
          Inr (Value Type_FUNCTION
                 (PFunc (FunctionValue (next_fv_id st) func_def (fd_param_types func_def) None)),
               st\<lparr>next_fv_id := next_fv_id st + 1\<rparr>)
      | _ \<Rightarrow> Inl (Error NAME_ERROR))"

section \<open>Overload resolution\<close>

text \<open>
  The inner loop of the overload search in \<open>__run_fcall\<close>: the flag \<open>match\<close> after the
  loop over the zipped parameter types and argument values.
\<close>

fun param_match :: "type_tag list \<Rightarrow> val list \<Rightarrow> bool" where
  "param_match (ptype # ptypes) (argval # argvals) =
     (if v argval = PNone \<and> (t argval = Type_OBJECT \<or> t argval = Type_FUNCTION) then
        (if ptype = Type_OBJECT \<or> ptype = Type_FUNCTION then param_match ptypes argvals
         else False)
      else
        (if ptype = t argval then param_match ptypes argvals else False))"
| "param_match _ _ = True"

text \<open>The outer loop over the function table: the list \<open>potential\<close>.\<close>

fun find_candidates ::
  "((string \<times> type_tag list) \<times> func_def) list \<Rightarrow> string \<Rightarrow> val list \<Rightarrow> func_def list" where
  "find_candidates [] fcall_name actual_args = []"
| "find_candidates (((fname, ptypes), func_def) # table) fcall_name actual_args =
     (if fname \<noteq> fcall_name then find_candidates table fcall_name actual_args
      else if length ptypes \<noteq> length actual_args then find_candidates table fcall_name actual_args
      else if param_match ptypes actual_args
      then func_def # find_candidates table fcall_name actual_args
      else find_candidates table fcall_name actual_args)"

section \<open>Parameter binding\<close>

text \<open>An entry of the list \<open>bindings\<close> of \<open>invoke_function\<close>.\<close>

datatype binding = Ref_binding string cell | Val_binding string val

text \<open>
  The body of the binding loop of \<open>invoke_function\<close> for one formal parameter, its argument
  expression and the value that expression had.
\<close>

definition bind_param :: "nat \<Rightarrow> interp \<Rightarrow> formal \<Rightarrow> expr \<Rightarrow> val \<Rightarrow> failure + binding" where
  "bind_param n st formal argument_expression argument_value =
     (case (if v argument_value = PNone
               \<and> (t argument_value = Type_OBJECT \<or> t argument_value = Type_FUNCTION) then
              (if declared_type formal = Type_OBJECT \<or> declared_type formal = Type_FUNCTION
               then Inr (Value (declared_type formal) PNone)
               else Inl (Error TYPE_ERROR))
            else
              (if t argument_value \<noteq> declared_type formal then Inl (Error TYPE_ERROR)
               else Inr argument_value)) of
        Inl e \<Rightarrow> Inl e
      | Inr bind_val \<Rightarrow>
          (case interface_check n st (formal_interface formal) bind_val of
             Inl e \<Rightarrow> Inl e
           | Inr _ \<Rightarrow>
               if formal_ref formal then
                 (case argument_expression of
                    Qname actual_name \<Rightarrow>
                      (case (case formal_interface formal of
                               None \<Rightarrow> Inr ()
                             | Some expected_interface \<Rightarrow>
                                 (case interface_for_qname actual_name of
                                    Inl e \<Rightarrow> Inl e
                                  | Inr arg_interface \<Rightarrow>
                                      if arg_interface \<noteq> None
                                         \<and> arg_interface \<noteq> Some expected_interface
                                      then Inl (Error TYPE_ERROR)
                                      else Inr ())) of
                         Inl e \<Rightarrow> Inl e
                       | Inr _ \<Rightarrow>
                           (case get_qname_cell st actual_name of
                              Inl e \<Rightarrow> Inl e
                            | Inr c \<Rightarrow> Inr (Ref_binding (formal_name formal) c)))
                  | _ \<Rightarrow> Inl (Error TYPE_ERROR))
               else Inr (Val_binding (formal_name formal) bind_val)))"

text \<open>The loop itself, over the three lists zipped.\<close>

fun bind_params ::
  "nat \<Rightarrow> interp \<Rightarrow> formal list \<Rightarrow> expr list \<Rightarrow> val list \<Rightarrow> failure + binding list" where
  "bind_params n st (formal # formals) (argument_expression # exprs) (argument_value # vals) =
     (case bind_param n st formal argument_expression argument_value of
        Inl e \<Rightarrow> Inl e
      | Inr b \<Rightarrow>
          (case bind_params n st formals exprs vals of
             Inl e \<Rightarrow> Inl e
           | Inr bs \<Rightarrow> Inr (b # bs)))"
| "bind_params n st _ _ _ = Inr []"

text \<open>
  \<open>Environment.fdef_function\<close> and \<open>fdef_block\<close> on the current stack: the new cell is the
  next address of \<open>cells\<close>.
\<close>

definition fdef_function :: "interp \<Rightarrow> string \<Rightarrow> val \<Rightarrow> failure + (bool \<times> interp)" where
  "fdef_function st varname initial_value =
     (case fdef_function_cell (cur_env st) varname (length (cells st)) of
        Inl e \<Rightarrow> Inl e
      | Inr (ok, stack) \<Rightarrow>
          if ok then Inr (True, (set_cur_env stack st)\<lparr>cells := cells st @ [initial_value]\<rparr>)
          else Inr (False, st))"

definition fdef_block :: "interp \<Rightarrow> string \<Rightarrow> val \<Rightarrow> failure + (bool \<times> interp)" where
  "fdef_block st varname initial_value =
     (case fdef_block_cell (cur_env st) varname (length (cells st)) of
        Inl e \<Rightarrow> Inl e
      | Inr (ok, stack) \<Rightarrow>
          if ok then Inr (True, (set_cur_env stack st)\<lparr>cells := cells st @ [initial_value]\<rparr>)
          else Inr (False, st))"

text \<open>The loop of \<open>invoke_function\<close> that defines the parameters in the new frame.\<close>

fun install_bindings :: "binding list \<Rightarrow> interp \<Rightarrow> failure + interp" where
  "install_bindings [] st = Inr st"
| "install_bindings (Val_binding pname val # bs) st =
     (case fdef_function st pname val of
        Inl e \<Rightarrow> Inl e
      | Inr (ok, st1) \<Rightarrow>
          if ok then install_bindings bs st1 else Inl (Error NAME_ERROR))"
| "install_bindings (Ref_binding pname c # bs) st =
     (case fdef_function_cell (cur_env st) pname c of
        Inl e \<Rightarrow> Inl e
      | Inr (ok, stack) \<Rightarrow>
          if ok then install_bindings bs (set_cur_env stack st) else Inl (Error NAME_ERROR))"

text \<open>
  \<open>invoke_function\<close>. The function that runs the statements of the body is the parameter
  \<open>rs\<close>; \<open>n\<close> bounds the nesting of the interface checks.
\<close>

definition invoke_function ::
  "(stmt list \<Rightarrow> interp \<Rightarrow> failure + ((val \<times> bool) \<times> interp)) \<Rightarrow> nat \<Rightarrow> func_def
     \<Rightarrow> expr list \<Rightarrow> val list \<Rightarrow> nat option \<Rightarrow> val option \<Rightarrow> interp
     \<Rightarrow> failure + (val \<times> interp)" where
  "invoke_function rs n func_def args_expr_nodes actual_args_values closure self_object_value st =
     (if length (fd_args func_def) \<noteq> length actual_args_values then Inl (Error TYPE_ERROR)
      else
        (case bind_params n st (fd_args func_def) args_expr_nodes actual_args_values of
           Inl e \<Rightarrow> Inl e
         | Inr bindings \<Rightarrow>
             (let previous_return_type = current_return_type st;
                  previous_return_interface = current_return_interface st;
                  saved_env_stack = env st;
                  st1 = (case closure of None \<Rightarrow> st | Some ce \<Rightarrow> st\<lparr>env := ce\<rparr>);
                  st2 = st1\<lparr>current_return_type := return_type func_def,
                           current_return_interface := return_interface func_def\<rparr>;
                  st3 = set_cur_env (enter_func (cur_env st2)) st2
              in case (case self_object_value of
                         None \<Rightarrow> Inr st3
                       | Some owner \<Rightarrow>
                           (case fdef_function st3 ''selfo'' owner of
                              Inl e \<Rightarrow> Inl e
                            | Inr (ok, st4) \<Rightarrow> if ok then Inr st4 else Inl (Error NAME_ERROR))) of
                   Inl e \<Rightarrow> Inl e
                 | Inr st4 \<Rightarrow>
                     (case install_bindings bindings st4 of
                        Inl e \<Rightarrow> Inl e
                      | Inr st5 \<Rightarrow>
                          (case rs (fd_statements func_def) st5 of
                             Inl e \<Rightarrow> Inl e
                           | Inr ((res, ret), st6) \<Rightarrow>
                               (case exit_func (cur_env st6) of
                                  Inl e \<Rightarrow> Inl e
                                | Inr stack \<Rightarrow>
                                    Inr (res,
                                         (set_cur_env stack st6)
                                           \<lparr>env := (case closure of
                                                      None \<Rightarrow> env st6
                                                    | Some ce \<Rightarrow> saved_env_stack),
                                            current_return_type := previous_return_type,
                                            current_return_interface :=
                                              previous_return_interface\<rparr>)))))))"

section \<open>Built-in functions\<close>

text \<open>
  The text \<open>print\<close> appends for one argument value: the payload through \<open>str\<close>, in lower
  case for a value of tag Bool.
\<close>

definition print_piece :: "val \<Rightarrow> string" where
  "print_piece c_out =
     (if t c_out = Type_BOOL then lower (str_payload (v c_out)) else str_payload (v c_out))"

text \<open>
  The loop of \<open>__handle_print\<close>, which evaluates the arguments one after the other with
  \<open>ev\<close> (the evaluator of expressions) and appends to \<open>out\<close>.
\<close>

fun print_loop ::
  "(expr \<Rightarrow> interp \<Rightarrow> failure + (val \<times> interp)) \<Rightarrow> expr list \<Rightarrow> string \<Rightarrow> interp
     \<Rightarrow> failure + (string \<times> interp)" where
  "print_loop ev [] out st = Inr (out, st)"
| "print_loop ev (arg # rest) out st =
     (case ev arg st of
        Inl e \<Rightarrow> Inl e
      | Inr (c_out, st1) \<Rightarrow> print_loop ev rest (out @ print_piece c_out) st1)"

definition handle_print ::
  "(expr \<Rightarrow> interp \<Rightarrow> failure + (val \<times> interp)) \<Rightarrow> expr list \<Rightarrow> interp
     \<Rightarrow> failure + (val \<times> interp)" where
  "handle_print ev args st =
     (case print_loop ev args [] st of
        Inl e \<Rightarrow> Inl e
      | Inr (out, st1) \<Rightarrow>
          Inr (Value Type_VOID PNone, st1\<lparr>output_lines := output_lines st1 @ [out]\<rparr>))"

text \<open>
  Modelled from the spec: \<open>get_input\<close> of the base class reads one line from the host; the
  lines the host will give are \<open>input_lines\<close>, and the model fails when there is none left.
\<close>

definition get_input :: "interp \<Rightarrow> failure + (string \<times> interp)" where
  "get_input st =
     (case input_lines st of
        [] \<Rightarrow> Inl (Host_Exception ''EOFError'')
      | line # lines \<Rightarrow> Inr (line, st\<lparr>input_lines := lines\<rparr>))"

definition handle_input ::
  "(expr \<Rightarrow> interp \<Rightarrow> failure + (val \<times> interp)) \<Rightarrow> string \<Rightarrow> expr list \<Rightarrow> interp
     \<Rightarrow> failure + (val \<times> interp)" where
  "handle_input ev fcall_name args st =
     (if length args > 1 then Inl (Error NAME_ERROR)
      else
        (case (if args \<noteq> [] then handle_print ev args st
               else Inr (Value Type_VOID PNone, st)) of
           Inl e \<Rightarrow> Inl e
         | Inr (printed, st1) \<Rightarrow>
             (case get_input st1 of
                Inl e \<Rightarrow> Inl e
              | Inr (res, st2) \<Rightarrow>
                  if fcall_name = ''inputi'' then
                    (case py_int res of
                       None \<Rightarrow> Inl (Host_Exception ''ValueError'')
                     | Some i \<Rightarrow> Inr (Value Type_INT (PInt i), st2))
                  else Inr (Value Type_STRING (PStr res), st2))))"

section \<open>Function calls\<close>

text \<open>The list comprehension that evaluates the arguments of a call, left to right.\<close>

fun eval_args ::
  "(expr \<Rightarrow> interp \<Rightarrow> failure + (val \<times> interp)) \<Rightarrow> expr list \<Rightarrow> interp
     \<Rightarrow> failure + (val list \<times> interp)" where
  "eval_args ev [] st = Inr ([], st)"
| "eval_args ev (arg # rest) st =
     (case ev arg st of
        Inl e \<Rightarrow> Inl e
      | Inr (x, st1) \<Rightarrow>
          (case eval_args ev rest st1 of
             Inl e \<Rightarrow> Inl e
           | Inr (xs, st2) \<Rightarrow> Inr (x # xs, st2)))"

text \<open>
  \<open>__run_fcall\<close>, with the evaluator of expressions \<open>ev\<close> and the runner of statements
  \<open>rs\<close> as parameters.
\<close>

definition run_fcall_body ::
  "(expr \<Rightarrow> interp \<Rightarrow> failure + (val \<times> interp))
     \<Rightarrow> (stmt list \<Rightarrow> interp \<Rightarrow> failure + ((val \<times> bool) \<times> interp))
     \<Rightarrow> nat \<Rightarrow> string \<Rightarrow> expr list \<Rightarrow> interp \<Rightarrow> failure + (val \<times> interp)" where
  "run_fcall_body ev rs n fcall_name args st =
     (if fcall_name = ''inputi'' \<or> fcall_name = ''inputs'' then handle_input ev fcall_name args st
      else if fcall_name = ''print'' then handle_print ev args st
      else
        (case eval_args ev args st of
           Inl e \<Rightarrow> Inl e
         | Inr (actual_args, st1) \<Rightarrow>
             if list_ex (\<lambda>arg. t arg = Type_VOID) actual_args then Inl (Error TYPE_ERROR)
             else
               (let has_frame = (length (cur_env st1) > 0);
                    is_dotted = (CHR ''.'' \<in> set fcall_name);
                    is_var = (has_frame \<and> \<not> is_dotted \<and> exists_env (cur_env st1) fcall_name)
                in if is_dotted \<or> is_var then
                     (case (if is_dotted then get_qname_cell_and_owner st1 fcall_name
                            else (case get_qname_cell st1 fcall_name of
                                    Inl e \<Rightarrow> Inl e
                                  | Inr c \<Rightarrow> Inr (c, None))) of
                        Inl e \<Rightarrow> Inl e
                      | Inr (func_cell, owner_object_value) \<Rightarrow>
                          if t (cells st1 ! func_cell) \<noteq> Type_FUNCTION then Inl (Error TYPE_ERROR)
                          else if v (cells st1 ! func_cell) = PNone then Inl (Error FAULT_ERROR)
                          else
                            (case v (cells st1 ! func_cell) of
                               PFunc fv \<Rightarrow>
                                 if length (param_types fv) \<noteq> length actual_args
                                 then Inl (Error TYPE_ERROR)
                                 else if list_ex (\<lambda>(ptype, argval). t argval \<noteq> ptype)
                                           (zip (param_types fv) actual_args)
                                 then Inl (Error TYPE_ERROR)
                                 else invoke_function rs n (func_ast fv) args actual_args
                                        (closure_env fv) owner_object_value st1
                             | _ \<Rightarrow> Inl (Host_Exception ''AttributeError'')))
                   else
                     (case find_candidates (funcs st1) fcall_name actual_args of
                        [] \<Rightarrow> Inl (Error NAME_ERROR)
                      | [func_def] \<Rightarrow>
                          invoke_function rs n func_def args actual_args None None st1
                      | _ \<Rightarrow> Inl (Error NAME_ERROR)))))"

section \<open>Expressions\<close>

text \<open>
  \<open>__eval_expr\<close>, with its calls to itself as the parameter \<open>ev\<close> and its call to
  \<open>__run_fcall\<close> as the parameter \<open>fc\<close>. An element type it does not know ends in the
  host exception of its last line.
\<close>

definition eval_expr_body ::
  "(expr \<Rightarrow> interp \<Rightarrow> failure + (val \<times> interp))
     \<Rightarrow> (string \<Rightarrow> expr list \<Rightarrow> interp \<Rightarrow> failure + (val \<times> interp))
     \<Rightarrow> expr \<Rightarrow> interp \<Rightarrow> failure + (val \<times> interp)" where
  "eval_expr_body ev fc ex st =
     (case ex of
        Func_lit lambda_name lambda_args stmts \<Rightarrow>
          (case return_of_name lambda_name of
             Inl e \<Rightarrow> Inl e
           | Inr (rtype, rinterface) \<Rightarrow>
               (case annotate_args lambda_args of
                  Inl e \<Rightarrow> Inl e
                | Inr formals \<Rightarrow>
                    (case capture_env_for_lambda st of
                       (captured, st1) \<Rightarrow>
                         Inr (Value Type_FUNCTION
                                (PFunc (FunctionValue (next_fv_id st1)
                                   (Func_def FUNC_NODE lambda_name formals stmts rtype rinterface
                                      (map declared_type formals))
                                   (map declared_type formals) (Some captured))),
                              st1\<lparr>next_fv_id := next_fv_id st1 + 1\<rparr>))))
      | Int_lit i \<Rightarrow> Inr (Value Type_INT (PInt i), st)
      | String_lit s \<Rightarrow> Inr (Value Type_STRING (PStr s), st)
      | Bool_lit b \<Rightarrow> Inr (Value Type_BOOL (PBool b), st)
      | Nil_lit \<Rightarrow> Inr (Value Type_OBJECT PNone, st)
      | New_object \<Rightarrow> Inr (new_object st)
      | Convert target inner \<Rightarrow>
          (case ev inner st of
             Inl e \<Rightarrow> Inl e
           | Inr (inner_val, st1) \<Rightarrow>
               (case convert_value target inner_val of
                  Inl e \<Rightarrow> Inl e
                | Inr r \<Rightarrow> Inr (r, st1)))
      | Qname qname \<Rightarrow>
          if CHR ''.'' \<in> set qname \<or> exists_env (cur_env st) qname then
            (case get_qname_value st qname of
               Inl e \<Rightarrow> Inl e
             | Inr r \<Rightarrow> Inr (r, st))
          else make_named_function_value st qname
      | Fcall fcall_name args \<Rightarrow> fc fcall_name args st
      | Bop kind op1 op2 \<Rightarrow>
          if kind \<in> set bops then
            (case ev op1 st of
               Inl e \<Rightarrow> Inl e
             | Inr (l, st1) \<Rightarrow>
                 (case ev op2 st1 of
                    Inl e \<Rightarrow> Inl e
                  | Inr (r, st2) \<Rightarrow>
                      (case eval_binary_op kind l r of
                         Inl e \<Rightarrow> Inl e
                       | Inr res \<Rightarrow> Inr (res, st2))))
          else Inl (Host_Exception ''Exception'')
      | Neg op1 \<Rightarrow>
          (case ev op1 st of
             Inl e \<Rightarrow> Inl e
           | Inr (x, st1) \<Rightarrow>
               (case (t x, v x) of
                  (Type_INT, PInt i) \<Rightarrow> Inr (Value Type_INT (PInt (- i)), st1)
                | _ \<Rightarrow> Inl (Error TYPE_ERROR)))
      | Not_expr op1 \<Rightarrow>
          (case ev op1 st of
             Inl e \<Rightarrow> Inl e
           | Inr (x, st1) \<Rightarrow>
               (case (t x, v x) of
                  (Type_BOOL, PBool b) \<Rightarrow> Inr (Value Type_BOOL (PBool (\<not> b)), st1)
                | _ \<Rightarrow> Inl (Error TYPE_ERROR)))
      | Other_expr kind \<Rightarrow> Inl (Host_Exception ''Exception''))"

section \<open>Statements\<close>

definition run_vardef :: "interp \<Rightarrow> string \<Rightarrow> failure + interp" where
  "run_vardef st name =
     (case type_from_name name of
        Inl e \<Rightarrow> Inl e
      | Inr vtype \<Rightarrow>
          (case default_value_for_type vtype of
             Inl e \<Rightarrow> Inl e
           | Inr initial \<Rightarrow>
               (case fdef_function st name initial of
                  Inl e \<Rightarrow> Inl e
                | Inr (ok, st1) \<Rightarrow> if ok then Inr st1 else Inl (Error NAME_ERROR))))"

definition run_bvardef :: "interp \<Rightarrow> string \<Rightarrow> failure + interp" where
  "run_bvardef st name =
     (case type_from_name name of
        Inl e \<Rightarrow> Inl e
      | Inr vtype \<Rightarrow>
          (case default_value_for_type vtype of
             Inl e \<Rightarrow> Inl e
           | Inr initial \<Rightarrow>
               (case fdef_block st name initial of
                  Inl e \<Rightarrow> Inl e
                | Inr (ok, st1) \<Rightarrow> if ok then Inr st1 else Inl (Error NAME_ERROR))))"

definition run_assign ::
  "(expr \<Rightarrow> interp \<Rightarrow> failure + (val \<times> interp)) \<Rightarrow> nat \<Rightarrow> string \<Rightarrow> expr \<Rightarrow> interp
     \<Rightarrow> failure + interp" where
  "run_assign ev n qname expression st =
     (case ev expression st of
        Inl e \<Rightarrow> Inl e
      | Inr (right_val, st1) \<Rightarrow> set_qname_value n st1 qname right_val)"

text \<open>
  \<open>__run_if\<close>. Its result \<open>res\<close> is \<open>None\<close> when no branch ran; an empty or missing list of
  else-statements is the same to the test \<open>elif statement.get("else_statements")\<close>.
\<close>

definition run_if ::
  "(expr \<Rightarrow> interp \<Rightarrow> failure + (val \<times> interp))
     \<Rightarrow> (stmt list \<Rightarrow> interp \<Rightarrow> failure + ((val \<times> bool) \<times> interp))
     \<Rightarrow> expr \<Rightarrow> stmt list \<Rightarrow> stmt list \<Rightarrow> interp
     \<Rightarrow> failure + ((val option \<times> bool) \<times> interp)" where
  "run_if ev rs condition stmts else_stmts st =
     (case ev condition st of
        Inl e \<Rightarrow> Inl e
      | Inr (cond, st1) \<Rightarrow>
          if t cond \<noteq> Type_BOOL then Inl (Error TYPE_ERROR)
          else
            (case enter_block (cur_env st1) of
               Inl e \<Rightarrow> Inl e
             | Inr stack \<Rightarrow>
                 (case (if v cond = PBool True then
                          (case rs stmts (set_cur_env stack st1) of
                             Inl e \<Rightarrow> Inl e
                           | Inr ((res, ret), st2) \<Rightarrow> Inr ((Some res, ret), st2))
                        else if else_stmts \<noteq> [] then
                          (case rs else_stmts (set_cur_env stack st1) of
                             Inl e \<Rightarrow> Inl e
                           | Inr ((res, ret), st2) \<Rightarrow> Inr ((Some res, ret), st2))
                        else Inr ((None, False), set_cur_env stack st1)) of
                    Inl e \<Rightarrow> Inl e
                  | Inr ((res, ret), st2) \<Rightarrow>
                      (case exit_block (cur_env st2) of
                         Inl e \<Rightarrow> Inl e
                       | Inr stack2 \<Rightarrow> Inr ((res, ret), set_cur_env stack2 st2)))))"

text \<open>
  One round of the loop of \<open>__run_while\<close>; \<open>rw\<close> stands for the rounds that follow, \<open>res\<close>
  is the local variable of that name, which starts as \<open>Value()\<close>.
\<close>

definition run_while_body ::
  "(expr \<Rightarrow> interp \<Rightarrow> failure + (val \<times> interp))
     \<Rightarrow> (stmt list \<Rightarrow> interp \<Rightarrow> failure + ((val \<times> bool) \<times> interp))
     \<Rightarrow> (val \<Rightarrow> expr \<Rightarrow> stmt list \<Rightarrow> interp \<Rightarrow> failure + ((val \<times> bool) \<times> interp))
     \<Rightarrow> val \<Rightarrow> expr \<Rightarrow> stmt list \<Rightarrow> interp \<Rightarrow> failure + ((val \<times> bool) \<times> interp)" where
  "run_while_body ev rs rw res condition stmts st =
     (case ev condition st of
        Inl e \<Rightarrow> Inl e
      | Inr (cond, st1) \<Rightarrow>
          if t cond \<noteq> Type_BOOL then Inl (Error TYPE_ERROR)
          else if v cond \<noteq> PBool True then Inr ((res, False), st1)
          else
            (case enter_block (cur_env st1) of
               Inl e \<Rightarrow> Inl e
             | Inr stack \<Rightarrow>
                 (case rs stmts (set_cur_env stack st1) of
                    Inl e \<Rightarrow> Inl e
                  | Inr ((res1, ret1), st2) \<Rightarrow>
                      (case exit_block (cur_env st2) of
                         Inl e \<Rightarrow> Inl e
                       | Inr stack2 \<Rightarrow>
                           if ret1 then Inr ((res1, ret1), set_cur_env stack2 st2)
                           else rw res1 condition stmts (set_cur_env stack2 st2)))))"

text \<open>
  \<open>__run_return\<close>. The attribute it sets on the default value is read nowhere and is left
  out.
\<close>

definition run_return ::
  "(expr \<Rightarrow> interp \<Rightarrow> failure + (val \<times> interp)) \<Rightarrow> nat \<Rightarrow> expr option \<Rightarrow> interp
     \<Rightarrow> failure + ((val \<times> bool) \<times> interp)" where
  "run_return ev n expression st =
     (case expression of
        None \<Rightarrow>
          if current_return_type st = Type_VOID then Inr ((Value Type_VOID PNone, True), st)
          else (case default_value_for_type (current_return_type st) of
                  Inl e \<Rightarrow> Inl e
                | Inr val \<Rightarrow> Inr ((val, True), st))
      | Some ex \<Rightarrow>
          (case ev ex st of
             Inl e \<Rightarrow> Inl e
           | Inr (val, st1) \<Rightarrow>
               if current_return_type st = Type_VOID then Inl (Error TYPE_ERROR)
               else
                 (case (if v val = PNone \<and> (t val = Type_OBJECT \<or> t val = Type_FUNCTION) then
                          (if current_return_type st = Type_OBJECT
                              \<or> current_return_type st = Type_FUNCTION
                           then Inr (Value (current_return_type st) PNone)
                           else Inl (Error TYPE_ERROR))
                        else
                          (if t val \<noteq> current_return_type st then Inl (Error TYPE_ERROR)
                           else Inr val)) of
                    Inl e \<Rightarrow> Inl e
                  | Inr val' \<Rightarrow>
                      (case interface_check n st1 (current_return_interface st) val' of
                         Inl e \<Rightarrow> Inl e
                       | Inr _ \<Rightarrow> Inr ((val', True), st1)))))"

text \<open>
  The loop of \<open>__run_statements\<close> over the statements; \<open>res\<close> is the default value the
  function computed before the loop. An if-statement reports \<open>ret\<close> only when one of its
  branches ran, so its \<open>res\<close> is a value then.
\<close>

fun statements_loop ::
  "(expr \<Rightarrow> interp \<Rightarrow> failure + (val \<times> interp))
     \<Rightarrow> (string \<Rightarrow> expr list \<Rightarrow> interp \<Rightarrow> failure + (val \<times> interp))
     \<Rightarrow> (stmt list \<Rightarrow> interp \<Rightarrow> failure + ((val \<times> bool) \<times> interp))
     \<Rightarrow> (val \<Rightarrow> expr \<Rightarrow> stmt list \<Rightarrow> interp \<Rightarrow> failure + ((val \<times> bool) \<times> interp))
     \<Rightarrow> nat \<Rightarrow> val \<Rightarrow> stmt list \<Rightarrow> interp \<Rightarrow> failure + ((val \<times> bool) \<times> interp)" where
  "statements_loop ev fc rs rw n res [] st = Inr ((res, False), st)"
| "statements_loop ev fc rs rw n res (statement # rest) st =
     (case statement of
        Vardef name \<Rightarrow>
          (case run_vardef st name of
             Inl e \<Rightarrow> Inl e
           | Inr st1 \<Rightarrow> statements_loop ev fc rs rw n res rest st1)
      | Bvardef name \<Rightarrow>
          (case run_bvardef st name of
             Inl e \<Rightarrow> Inl e
           | Inr st1 \<Rightarrow> statements_loop ev fc rs rw n res rest st1)
      | Assign qname expression \<Rightarrow>
          (case run_assign ev n qname expression st of
             Inl e \<Rightarrow> Inl e
           | Inr st1 \<Rightarrow> statements_loop ev fc rs rw n res rest st1)
      | Fcall_stmt fcall_name args \<Rightarrow>
          (case fc fcall_name args st of
             Inl e \<Rightarrow> Inl e
           | Inr (ignored, st1) \<Rightarrow> statements_loop ev fc rs rw n res rest st1)
      | If_stmt condition stmts else_stmts \<Rightarrow>
          (case run_if ev rs condition stmts else_stmts st of
             Inl e \<Rightarrow> Inl e
           | Inr ((res1, ret1), st1) \<Rightarrow>
               if ret1 then
                 (case res1 of
                    Some r \<Rightarrow> Inr ((r, True), st1)
                  | None \<Rightarrow> Inl (Host_Exception ''AttributeError''))
               else statements_loop ev fc rs rw n res rest st1)
      | While_stmt condition stmts \<Rightarrow>
          (case rw (Value Type_NIL PNone) condition stmts st of
             Inl e \<Rightarrow> Inl e
           | Inr ((res1, ret1), st1) \<Rightarrow>
               if ret1 then Inr ((res1, True), st1)
               else statements_loop ev fc rs rw n res rest st1)
      | Return_stmt expression \<Rightarrow> run_return ev n expression st
      | Other_stmt kind \<Rightarrow> statements_loop ev fc rs rw n res rest st)"

definition run_statements_body ::
  "(expr \<Rightarrow> interp \<Rightarrow> failure + (val \<times> interp))
     \<Rightarrow> (string \<Rightarrow> expr list \<Rightarrow> interp \<Rightarrow> failure + (val \<times> interp))
     \<Rightarrow> (stmt list \<Rightarrow> interp \<Rightarrow> failure + ((val \<times> bool) \<times> interp))
     \<Rightarrow> (val \<Rightarrow> expr \<Rightarrow> stmt list \<Rightarrow> interp \<Rightarrow> failure + ((val \<times> bool) \<times> interp))
     \<Rightarrow> nat \<Rightarrow> stmt list \<Rightarrow> interp \<Rightarrow> failure + ((val \<times> bool) \<times> interp)" where
  "run_statements_body ev fc rs rw n stmts st =
     (case default_value_for_type (current_return_type st) of
        Inl e \<Rightarrow> Inl e
      | Inr res \<Rightarrow> statements_loop ev fc rs rw n res stmts st)"

section \<open>The interpreter\<close>

text \<open>
  The functions of the interpreter that call each other, \<open>__eval_expr\<close>, \<open>__run_fcall\<close>,
  \<open>__run_statements\<close> and \<open>__run_while\<close>, take a bound \<open>n\<close> on the depth of their nested
  calls (a program may run forever, or overflow the host's stack): each call another one
  makes gets \<open>n - 1\<close>, and at \<open>0\<close> the result is \<open>Out_Of_Fuel\<close>.
\<close>

fun eval_expr :: "nat \<Rightarrow> expr \<Rightarrow> interp \<Rightarrow> failure + (val \<times> interp)"
and run_fcall :: "nat \<Rightarrow> string \<Rightarrow> expr list \<Rightarrow> interp \<Rightarrow> failure + (val \<times> interp)"
and run_statements :: "nat \<Rightarrow> stmt list \<Rightarrow> interp \<Rightarrow> failure + ((val \<times> bool) \<times> interp)"
and run_while ::
  "nat \<Rightarrow> val \<Rightarrow> expr \<Rightarrow> stmt list \<Rightarrow> interp \<Rightarrow> failure + ((val \<times> bool) \<times> interp)"
where
  "eval_expr 0 ex st = Inl Out_Of_Fuel"
| "eval_expr (Suc n) ex st =
     eval_expr_body (\<lambda>e s. eval_expr n e s) (\<lambda>f a s. run_fcall n f a s) ex st"
| "run_fcall 0 fcall_name args st = Inl Out_Of_Fuel"
| "run_fcall (Suc n) fcall_name args st =
     run_fcall_body (\<lambda>e s. eval_expr n e s) (\<lambda>ss s. run_statements n ss s) n fcall_name args st"
| "run_statements 0 stmts st = Inl Out_Of_Fuel"
| "run_statements (Suc n) stmts st =
     run_statements_body (\<lambda>e s. eval_expr n e s) (\<lambda>f a s. run_fcall n f a s)
       (\<lambda>ss s. run_statements n ss s) (\<lambda>r c ss s. run_while n r c ss s) n stmts st"
| "run_while 0 res condition stmts st = Inl Out_Of_Fuel"
| "run_while (Suc n) res condition stmts st =
     run_while_body (\<lambda>e s. eval_expr n e s) (\<lambda>ss s. run_statements n ss s)
       (\<lambda>r c ss s. run_while n r c ss s) res condition stmts st"

text \<open>
  \<open>run\<close>, from the parsed program: it builds the two tables, looks \<open>main\<close> up and calls it
  through \<open>__run_fcall\<close> with the node of \<open>main\<close> in the place of a call node, whose \<open>args\<close>
  are the (empty) parameters of \<open>main\<close>.
\<close>

definition run :: "nat \<Rightarrow> program \<Rightarrow> string list \<Rightarrow> failure + interp" where
  "run n prog inp =
     (case create_interface_table (interfaces_of prog) [] of
        Inl e \<Rightarrow> Inl e
      | Inr itable \<Rightarrow>
          (case create_function_table (functions_of prog) [] of
             Inl e \<Rightarrow> Inl e
           | Inr ftable \<Rightarrow>
               (case get_function ((init_interp inp)\<lparr>interfaces := itable, funcs := ftable\<rparr>)
                       ''main'' [] of
                  Inl e \<Rightarrow> Inl e
                | Inr main_def \<Rightarrow>
                    (case run_fcall n (fd_name main_def) []
                            ((init_interp inp)
                               \<lparr>interfaces := itable, funcs := ftable,
                                current_return_type := return_type main_def,
                                current_return_interface := return_interface main_def\<rparr>) of
                       Inl e \<Rightarrow> Inl e
                     | Inr (res, st) \<Rightarrow> Inr st))))"

section \<open>Example programs\<close>

text \<open>The lines a run has given to the host's \<open>output\<close>, or the failure that ended it.\<close>

definition output_of :: "failure + interp \<Rightarrow> failure + string list" where
  "output_of r = (case r of Inl e \<Rightarrow> Inl e | Inr st \<Rightarrow> Inr (output_lines st))"

text \<open>
  \<^verbatim>\<open>func foov() { }  func main() { print(foov()); }\<close>
\<close>

definition void_argument_program :: program where
  "void_argument_program = Program [] [
     Func_node ''func'' ''foov'' [] [],
     Func_node ''func'' ''main'' [] [Fcall_stmt ''print'' [Fcall ''foov'' []]]]"

text \<open>
  \<^verbatim>\<open>func foov() { }  func main() { var xs; xs = inputs(foov()); print(xs); }\<close>
\<close>

definition void_prompt_program :: program where
  "void_prompt_program = Program [] [
     Func_node ''func'' ''foov'' [] [],
     Func_node ''func'' ''main'' []
       [Vardef ''xs'', Assign ''xs'' (Fcall ''inputs'' [Fcall ''foov'' []]),
        Fcall_stmt ''print'' [Qname ''xs'']]]"

text \<open>
  \<^verbatim>\<open>func foov() { }  func barv(xi) { }  func main() { barv(foov()); }\<close>
\<close>

definition void_user_argument_program :: program where
  "void_user_argument_program = Program [] [
     Func_node ''func'' ''foov'' [] [],
     Func_node ''func'' ''barv'' [Param ''xi'' False] [],
     Func_node ''func'' ''main'' [] [Fcall_stmt ''barv'' [Fcall ''foov'' []]]]"

text \<open>
  A program that stores an object in a field whose name has the type Function, through a
  reference parameter, and then goes through that field:
  \<^verbatim>\<open>func foov(ref xo) { xo = @; xo.gf = func lamv() { print("hi"); }; }\<close>
  \<^verbatim>\<open>func main() { var ao; ao = @; ao.pf = nil; foov(ao.pf); ... }\<close>
  where the last statements of \<open>main\<close> are the parameter.
\<close>

definition function_field_program :: "stmt list \<Rightarrow> program" where
  "function_field_program last_statements = Program [] [
     Func_node ''func'' ''foov'' [Param ''xo'' True]
       [Assign ''xo'' New_object,
        Assign ''xo.gf'' (Func_lit ''lamv'' [] [Fcall_stmt ''print'' [String_lit ''hi'']])],
     Func_node ''func'' ''main'' []
       ([Vardef ''ao'', Assign ''ao'' New_object, Assign ''ao.pf'' Nil_lit,
         Fcall_stmt ''foov'' [Qname ''ao.pf'']] @ last_statements)]"

section \<open>Overload resolution as the specification words it\<close>

text \<open>
  A parameter type matches an argument value when it equals the value's tag, where a nil
  Object or Function value matches an Object or a Function parameter.
\<close>

definition spec_argument_matches :: "type_tag \<Rightarrow> val \<Rightarrow> bool" where
  "spec_argument_matches ptype argval =
     (if is_nil_value argval then ptype = Type_OBJECT \<or> ptype = Type_FUNCTION
      else ptype = t argval)"

text \<open>
  The candidates of a call: the entries of the function table with the name of the call,
  as many parameters as the call has arguments, and every parameter type matching its
  argument.
\<close>

definition spec_candidates ::
  "((string \<times> type_tag list) \<times> func_def) list \<Rightarrow> string \<Rightarrow> val list \<Rightarrow> func_def list" where
  "spec_candidates table fcall_name actual_args =
     map snd (filter (\<lambda>((fname, ptypes), func_def).
                         fname = fcall_name \<and> length ptypes = length actual_args
                         \<and> list_all2 spec_argument_matches ptypes actual_args) table)"

section \<open>More example programs\<close>

text \<open>
  Two interfaces of the same shape and a function with a reference parameter of
  interface \<open>A\<close>, called with the variable named by \<open>actual\<close>:
  \<^verbatim>\<open>interface A { ni; }  interface B { ni; }\<close>
  \<^verbatim>\<open>func foov(ref pA) { print(pA.ni); }\<close>
  \<^verbatim>\<open>func main() { var xo; xo = @; xo.ni = 7; var xB; xB = xo; var xA; xA = xo; foov(actual); }\<close>
\<close>

definition ref_interface_program :: "string \<Rightarrow> program" where
  "ref_interface_program actual = Program
     [Interface_node ''A'' [Field_var ''ni''], Interface_node ''B'' [Field_var ''ni'']]
     [Func_node ''func'' ''foov'' [Param ''pA'' True] [Fcall_stmt ''print'' [Qname ''pA.ni'']],
      Func_node ''func'' ''main'' []
        [Vardef ''xo'', Assign ''xo'' New_object, Assign ''xo.ni'' (Int_lit 7),
         Vardef ''xB'', Assign ''xB'' (Qname ''xo''),
         Vardef ''xA'', Assign ''xA'' (Qname ''xo''),
         Fcall_stmt ''foov'' [Qname actual]]]"

text \<open>
  A state in which \<open>xo\<close> and \<open>xB\<close> hold the same object, which has the field \<open>ni\<close>.
\<close>

definition ref_interface_state :: interp where
  "ref_interface_state =
     (init_interp [])
       \<lparr>interfaces := [(''A'', [(''ni'', Var_field Type_INT None)])],
        env_lists := [[[[(''xo'', 0), (''xB'', 1)]]]],
        cells := [Value Type_OBJECT (PObj 1), Value Type_OBJECT (PObj 1), Value Type_INT (PInt 7)],
        heap := [(1, [(''ni'', 2)])]\<rparr>"

text \<open>
  Overloads by parameter type:
  \<^verbatim>\<open>func pv(xi) { print("int"); }  func pv(xs) { print("str"); }\<close>
  \<^verbatim>\<open>func qv(xo) { print("obj"); }  func qv(xf) { print("fun"); }\<close>
  \<^verbatim>\<open>func main() { pv(1); pv("a"); qv(@); }\<close>
  and the state of the interpreter with the function table of this program.
\<close>

definition overload_program :: program where
  "overload_program = Program [] [
     Func_node ''func'' ''pv'' [Param ''xi'' False] [Fcall_stmt ''print'' [String_lit ''int'']],
     Func_node ''func'' ''pv'' [Param ''xs'' False] [Fcall_stmt ''print'' [String_lit ''str'']],
     Func_node ''func'' ''qv'' [Param ''xo'' False] [Fcall_stmt ''print'' [String_lit ''obj'']],
     Func_node ''func'' ''qv'' [Param ''xf'' False] [Fcall_stmt ''print'' [String_lit ''fun'']],
     Func_node ''func'' ''main'' []
       [Fcall_stmt ''pv'' [Int_lit 1], Fcall_stmt ''pv'' [String_lit ''a''],
        Fcall_stmt ''qv'' [New_object]]]"

definition overload_state :: interp where
  "overload_state =
     (init_interp [])
       \<lparr>funcs := (case create_function_table (functions_of overload_program) [] of
                    Inl e \<Rightarrow> [] | Inr table \<Rightarrow> table)\<rparr>"

section \<open>Reference parameters: an example\<close>

text \<open>
  The function \<^verbatim>\<open>func incv(ref ni) { ni = ni + 1; }\<close> as the function table holds it.
\<close>

definition ref_increment :: func_def where
  "ref_increment = Func_def ''func'' ''incv'' [Formal ''ni'' True Type_INT None]
     [Assign ''ni'' (Bop ''+'' (Qname ''ni'') (Int_lit 1))] Type_VOID None [Type_INT]"

text \<open>
  The state of a caller whose frame binds \<open>xi\<close> to cell 0, which holds 41, and the state
  inside a callee whose frame binds the formal \<open>ni\<close> to the same cell.
\<close>

definition ref_call_state :: interp where
  "ref_call_state =
     (init_interp [])\<lparr>env_lists := [[[[(''xi'', 0)]]]], cells := [Value Type_INT (PInt 41)]\<rparr>"

definition ref_callee_state :: interp where
  "ref_callee_state =
     (init_interp [])\<lparr>env_lists := [[[[(''xi'', 0)]], [[(''ni'', 0)]]]],
                       cells := [Value Type_INT (PInt 41)]\<rparr>"

text \<open>
  \<^verbatim>\<open>func incv(ref ni) { ni = ni + 1; }\<close>
  \<^verbatim>\<open>func main() { var xi; xi = 41; incv(xi); print(xi); }\<close>
\<close>

definition ref_program :: program where
  "ref_program = Program [] [
     Func_node ''func'' ''incv'' [Param ''ni'' True]
       [Assign ''ni'' (Bop ''+'' (Qname ''ni'') (Int_lit 1))],
     Func_node ''func'' ''main'' []
       [Vardef ''xi'', Assign ''xi'' (Int_lit 41), Fcall_stmt ''incv'' [Qname ''xi''],
        Fcall_stmt ''print'' [Qname ''xi'']]]"

section \<open>Closures: examples\<close>

text \<open>
  A state whose frame binds \<open>xi\<close> to a cell holding 1 and \<open>ao\<close> to a cell holding the
  object 1, which has the field \<open>xi\<close>.
\<close>

definition closure_state :: interp where
  "closure_state =
     (init_interp [])
       \<lparr>env_lists := [[[[(''xi'', 0), (''ao'', 1)]]]],
        cells := [Value Type_INT (PInt 1), Value Type_OBJECT (PObj 1), Value Type_INT (PInt 1)],
        heap := [(1, [(''xi'', 2)])],
        next_obj_id := 2\<rparr>"

text \<open>
  \<^verbatim>\<open>func main() { var xi; xi = 1; var ff; ff = func lami() { return xi; }; xi = 2;\<close>
  \<^verbatim>\<open>              print(ff()); print(xi); }\<close>
\<close>

definition closure_program :: program where
  "closure_program = Program [] [
     Func_node ''func'' ''main'' []
       [Vardef ''xi'', Assign ''xi'' (Int_lit 1), Vardef ''ff'',
        Assign ''ff'' (Func_lit ''lami'' [] [Return_stmt (Some (Qname ''xi''))]),
        Assign ''xi'' (Int_lit 2),
        Fcall_stmt ''print'' [Fcall ''ff'' []],
        Fcall_stmt ''print'' [Qname ''xi'']]]"

text \<open>
  \<^verbatim>\<open>func main() { var ao; ao = @; ao.xi = 1; var ff; ff = func lami() { return ao.xi; };\<close>
  \<^verbatim>\<open>              ao.xi = 5; print(ff()); }\<close>
\<close>

definition closure_object_program :: program where
  "closure_object_program = Program [] [
     Func_node ''func'' ''main'' []
       [Vardef ''ao'', Assign ''ao'' New_object, Assign ''ao.xi'' (Int_lit 1), Vardef ''ff'',
        Assign ''ff'' (Func_lit ''lami'' [] [Return_stmt (Some (Qname ''ao.xi''))]),
        Assign ''ao.xi'' (Int_lit 5),
        Fcall_stmt ''print'' [Fcall ''ff'' []]]]"

section \<open>Name lookup\<close>

lemma scan_blocks_append:
  "scan_blocks (xs @ ys) x = (case scan_blocks xs x of Some c \<Rightarrow> Some c | None \<Rightarrow> scan_blocks ys x)"
  by (induction xs) (auto split: option.splits)

lemma scan_frames_append:
  "scan_frames (xs @ ys) x = (case scan_frames xs x of Some c \<Rightarrow> Some c | None \<Rightarrow> scan_frames ys x)"
  by (induction xs) (auto split: option.splits)

lemma scan_blocks_None: "scan_blocks bs x = None \<longleftrightarrow> (\<forall>b\<in>set bs. map_of b x = None)"
  by (induction bs) (auto split: option.splits)

lemma scan_frames_None:
  "scan_frames fs x = None \<longleftrightarrow> (\<forall>f\<in>set fs. \<forall>b\<in>set f. map_of b x = None)"
proof (induction fs)
  case Nil
  show ?case by simp
next
  case (Cons f fs)
  have "scan_blocks (rev f) x = None \<longleftrightarrow> (\<forall>b\<in>set f. map_of b x = None)"
    by (simp add: scan_blocks_None)
  with Cons show ?case
    by (cases "scan_blocks (rev f) x") auto
qed

text \<open>
  C1, as the code has it: \<open>get_current_cell\<close> and \<open>exists\<close> scan every frame of the stack,
  from the top frame down to the oldest caller, and inside each frame from the innermost
  block outwards. The top frame has priority, but where it does not bind the name the
  search goes on in the frames below; the lookup finds nothing only if no block of any
  frame binds the name; and \<open>exists\<close> holds exactly when \<open>get_current_cell\<close> finds a cell.
\<close>

theorem lookup_scans_all_frames:
  "get_current_cell (callers @ [cur]) x =
     (case scan_blocks (rev cur) x of
        Some c \<Rightarrow> Some c
      | None \<Rightarrow> get_current_cell callers x)
   \<and> (get_current_cell stack x = None \<longleftrightarrow> (\<forall>frame\<in>set stack. \<forall>block\<in>set frame. map_of block x = None))
   \<and> (exists_env stack x \<longleftrightarrow> get_current_cell stack x \<noteq> None)"
proof -
  have top_first: "get_current_cell (callers @ [cur]) x =
      (case scan_blocks (rev cur) x of Some c \<Rightarrow> Some c | None \<Rightarrow> get_current_cell callers x)"
    by (simp add: get_current_cell_def split: option.splits)
  have none_iff: "get_current_cell stack x = None \<longleftrightarrow>
      (\<forall>frame\<in>set stack. \<forall>block\<in>set frame. map_of block x = None)"
    by (simp add: get_current_cell_def scan_frames_None)
  have "exists_env stack x \<longleftrightarrow> get_current_cell stack x \<noteq> None"
    by (simp add: get_current_cell_def exists_env_def)
  with top_first none_iff show ?thesis by blast
qed

theorem lookup_scans_all_frames_witness:
  "get_current_cell ([[[(''xi'', 7)]]] @ [[[(''yi'', 8)]]]) ''xi'' = Some 7
   \<and> exists_env ([[[(''xi'', 7)]]] @ [[[(''yi'', 8)]]]) ''xi''"
  using lookup_scans_all_frames [of "[[[(''xi'', 7)]]]" "[[(''yi'', 8)]]" "''xi''"
          "[[[(''xi'', 7)]]] @ [[[(''yi'', 8)]]]"]
  by (simp add: get_current_cell_def)

text \<open>
  C1 as stated fails: with the name bound only in the caller's frame and the current frame
  binding nothing, the current frame alone yields no cell (\<open>get_top\<close>), yet the lookup the
  interpreter uses finds the caller's cell.
\<close>

theorem lookup_crosses_frames_counterexample:
  "get_top [[[(''xi'', 0)]], [[]]] ''xi'' = Inr None
   \<and> get_current_cell [[[(''xi'', 0)]], [[]]] ''xi'' = Some 0
   \<and> exists_env [[[(''xi'', 0)]], [[]]] ''xi''"
  by (simp add: get_top_def get_current_cell_def exists_env_def)

section \<open>Integer division\<close>

text \<open>
  C4, as the code has it: for Int operands with a nonzero divisor, \<open>/\<close> yields the floor of
  the exact quotient (rounding towards minus infinity); it is the quotient truncated
  towards zero when both operands are non-negative.
\<close>

theorem division_is_floor:
  "b \<noteq> 0 \<Longrightarrow>
     eval_binary_op ''/'' (Value Type_INT (PInt a)) (Value Type_INT (PInt b))
       = Inr (Value Type_INT (PInt \<lfloor>real_of_int a / real_of_int b\<rfloor>))
     \<and> (0 \<le> a \<and> 0 \<le> b \<longrightarrow> \<lfloor>real_of_int a / real_of_int b\<rfloor> = a sdiv b)"
proof -
  assume b: "b \<noteq> 0"
  have fl: "\<lfloor>real_of_int a / real_of_int b\<rfloor> = a div b"
    by (simp add: floor_divide_of_int_eq)
  have "0 \<le> a \<and> 0 \<le> b \<longrightarrow> a div b = a sdiv b"
    by (auto simp: signed_divide_int_def sgn_if)
  with b fl show ?thesis
    by (simp add: eval_binary_op_def)
qed

theorem division_is_floor_witness:
  "eval_binary_op ''/'' (Value Type_INT (PInt (- 7))) (Value Type_INT (PInt 2))
     = Inr (Value Type_INT (PInt (- 4)))"
proof -
  have "\<lfloor>real_of_int (- 7) / real_of_int 2\<rfloor> = (- 4 :: int)"
    by (simp add: floor_divide_of_int_eq [of "- 7" 2, simplified])
  with division_is_floor [of 2 "- 7"] show ?thesis by simp
qed

text \<open>
  C4 as stated fails: \<open>-7 / 2\<close> evaluates to \<open>-4\<close>, while the quotient truncated towards
  zero (\<open>sdiv\<close>) is \<open>-3\<close>.
\<close>

theorem division_truncation_counterexample:
  "eval_binary_op ''/'' (Value Type_INT (PInt (- 7))) (Value Type_INT (PInt 2))
     = Inr (Value Type_INT (PInt (- 4)))
   \<and> ((- 7) sdiv 2 :: int) = - 3"
  by (simp add: eval_binary_op_def signed_divide_int_def)

text \<open>
  C9: on Int operands \<open>/\<close> returns a value exactly when the divisor is nonzero. With a zero
  divisor the result is the host's ZeroDivisionError, which nothing catches; it is none of
  the interpreter's Name, Type or Fault errors, and with a nonzero divisor there is no
  failure of any kind.
\<close>

theorem division_by_zero_is_host_exception:
  "(b = 0 \<longrightarrow>
      eval_binary_op ''/'' (Value Type_INT (PInt a)) (Value Type_INT (PInt b))
        = Inl (Host_Exception ''ZeroDivisionError''))
   \<and> (b \<noteq> 0 \<longrightarrow>
      eval_binary_op ''/'' (Value Type_INT (PInt a)) (Value Type_INT (PInt b))
        = Inr (Value Type_INT (PInt (a div b))))
   \<and> eval_binary_op ''/'' (Value Type_INT (PInt a)) (Value Type_INT (PInt b)) \<noteq> Inl (Error e)"
  by (simp add: eval_binary_op_def)

theorem division_by_zero_is_host_exception_witness:
  "eval_binary_op ''/'' (Value Type_INT (PInt 5)) (Value Type_INT (PInt 0))
     = Inl (Host_Exception ''ZeroDivisionError'')
   \<and> eval_binary_op ''/'' (Value Type_INT (PInt 5)) (Value Type_INT (PInt 2))
     = Inr (Value Type_INT (PInt 2))"
  using division_by_zero_is_host_exception [of 0 5] division_by_zero_is_host_exception [of 2 5]
  by simp

section \<open>Printing\<close>

lemma print_loop_eval_args:
  "print_loop ev args out st =
     (case eval_args ev args st of
        Inl e \<Rightarrow> Inl e
      | Inr (vals, st1) \<Rightarrow> Inr (out @ concat (map print_piece vals), st1))"
proof (induction args arbitrary: out st)
  case Nil
  show ?case by simp
next
  case (Cons a args)
  show ?case
  proof (cases "ev a st")
    case (Inl e)
    then show ?thesis by simp
  next
    case (Inr r)
    obtain x st1 where r: "r = (x, st1)" by (cases r)
    show ?thesis
      using Inr r Cons.IH [of "out @ print_piece x" st1]
      by (simp split: sum.splits prod.splits)
  qed
qed

text \<open>
  C10: a call of \<open>print\<close> evaluates its arguments from left to right and emits exactly one
  line, the concatenation of the texts of the argument values. The text of a nil Object
  or nil Function is \<open>None\<close>, the text of a Bool is \<open>true\<close> or \<open>false\<close> in lower case, and
  the text of any value that is not a Bool is \<open>str\<close> of its payload, unchanged.
\<close>

theorem print_renders_nil_as_None:
  "run_fcall (Suc n) ''print'' args st =
     (case eval_args (eval_expr n) args st of
        Inl e \<Rightarrow> Inl e
      | Inr (vals, st1) \<Rightarrow>
          Inr (Value Type_VOID PNone,
               st1\<lparr>output_lines := output_lines st1 @ [concat (map print_piece vals)]\<rparr>))
   \<and> print_piece (Value Type_OBJECT PNone) = ''None''
   \<and> print_piece (Value Type_FUNCTION PNone) = ''None''
   \<and> print_piece (Value Type_BOOL (PBool b)) = (if b then ''true'' else ''false'')
   \<and> (t x \<noteq> Type_BOOL \<longrightarrow> print_piece x = str_payload (v x))"
proof -
  have "run_fcall (Suc n) ''print'' args st = handle_print (eval_expr n) args st"
    by (simp add: run_fcall_body_def)
  moreover have "handle_print (eval_expr n) args st =
     (case eval_args (eval_expr n) args st of
        Inl e \<Rightarrow> Inl e
      | Inr (vals, st1) \<Rightarrow>
          Inr (Value Type_VOID PNone,
               st1\<lparr>output_lines := output_lines st1 @ [concat (map print_piece vals)]\<rparr>))"
    by (simp add: handle_print_def print_loop_eval_args split: sum.splits prod.splits)
  moreover have "print_piece (Value Type_BOOL (PBool b)) = (if b then ''true'' else ''false'')"
  proof -
    have "lower ''True'' = ''true''" and "lower ''False'' = ''false''"
      by code_simp+
    then show ?thesis
      by (simp add: print_piece_def str_payload_def)
  qed
  ultimately show ?thesis
    by (simp add: print_piece_def str_payload_def)
qed

theorem print_renders_nil_as_None_witness:
  "run_fcall (Suc 2) ''print'' [Nil_lit, Bool_lit True, String_lit ''x'', Int_lit 12] (init_interp [])
     = Inr (Value Type_VOID PNone, (init_interp [])\<lparr>output_lines := [''Nonetruex12'']\<rparr>)
   \<and> print_piece (Value Type_INT (PInt 12)) = ''12''"
proof -
  have e: "eval_args (eval_expr 2) [Nil_lit, Bool_lit True, String_lit ''x'', Int_lit 12] (init_interp [])
     = Inr ([Value Type_OBJECT PNone, Value Type_BOOL (PBool True), Value Type_STRING (PStr ''x''),
             Value Type_INT (PInt 12)], init_interp [])"
    by code_simp
  have s: "str_payload (PInt 12) = ''12''" by code_simp
  have p: "concat (map print_piece [Value Type_OBJECT PNone, Value Type_BOOL (PBool True),
             Value Type_STRING (PStr ''x''), Value Type_INT (PInt 12)]) = ''Nonetruex12''"
    by code_simp
  have none_yet: "output_lines (init_interp []) = []"
    by (simp add: init_interp_def)
  show ?thesis
    using print_renders_nil_as_None [of 2 "[Nil_lit, Bool_lit True, String_lit ''x'', Int_lit 12]"
        "init_interp []" True "Value Type_INT (PInt 12)"]
    by (simp only: e p none_yet s sum.case prod.case append_Nil val.sel type_tag.distinct
          not_False_eq_True simp_thms)
qed

section \<open>Void arguments\<close>

text \<open>
  C8 at its failing inputs: \<open>print\<close> and \<open>inputs\<close> evaluate their arguments themselves,
  before the check of \<open>__run_fcall\<close> for Void arguments is reached. With a Void argument
  \<open>print\<close> raises no error and emits the line \<open>None\<close>, and \<open>inputs\<close> prints \<open>None\<close> as its
  prompt and goes on; the same argument to a function of the program is a Type error.
\<close>

theorem print_accepts_void_argument:
  "output_of (run 10 void_argument_program []) = Inr [''None'']
   \<and> output_of (run 10 void_prompt_program [''abc'']) = Inr [''None'', ''abc'']
   \<and> output_of (run 10 void_user_argument_program []) = Inl (Error TYPE_ERROR)"
  by code_simp

section \<open>Dotted names\<close>

text \<open>
  C6 at its failing input. After \<open>foov(ao.pf)\<close> the field \<open>pf\<close>, whose name has the type
  Function, holds an object with a field \<open>gf\<close>. The dotted call \<open>ao.pf.gf()\<close> walks through
  \<open>pf\<close> and runs the function, where reading \<open>ao.pf.gf\<close> or assigning to it is a Type error:
  \<open>get_qname_cell_and_owner\<close> lacks the check of the intermediate field's name that
  \<open>get_qname_cell\<close> and \<open>set_qname_value\<close> make.
\<close>

theorem dotted_call_walks_function_field:
  "output_of (run 10 (function_field_program [Fcall_stmt ''ao.pf.gf'' []]) []) = Inr [''hi'']
   \<and> output_of (run 10 (function_field_program
        [Vardef ''hf'', Assign ''hf'' (Qname ''ao.pf.gf'')]) []) = Inl (Error TYPE_ERROR)
   \<and> output_of (run 10 (function_field_program
        [Assign ''ao.pf.gf'' Nil_lit]) []) = Inl (Error TYPE_ERROR)"
  by code_simp

section \<open>Reference parameters with an interface\<close>

text \<open>
  C7, as the code has it: for a ref formal with an interface, bound to a qualified name
  whose value has the formal's type and conforms to the formal's interface, the call is a
  Type error exactly when the argument's name carries an interface and that interface
  differs from the formal's; with a name that carries no interface, or the same one, the
  formal is bound to the cell of the name.
\<close>

theorem ref_interface_must_not_differ:
  assumes "formal_ref formal" and "formal_interface formal = Some expected"
    and "t val = declared_type formal"
    and "object_satisfies_interface n st (Some expected) val = Inr True"
    and "interface_for_qname qname = Inr arg_interface"
  shows "bind_param n st formal (Qname qname) val =
     (if arg_interface \<noteq> None \<and> arg_interface \<noteq> Some expected then Inl (Error TYPE_ERROR)
      else (case get_qname_cell st qname of
              Inl e \<Rightarrow> Inl e
            | Inr c \<Rightarrow> Inr (Ref_binding (formal_name formal) c)))"
proof -
  obtain ty p where val: "val = Value ty p" by (cases val)
  have obj: "ty = Type_OBJECT"
    using assms(4) val by (simp split: if_splits)
  have decl: "declared_type formal = Type_OBJECT"
    using assms(3) val obj by simp
  have chk: "interface_check n st (formal_interface formal) val = Inr ()"
    using assms(2,4) by (simp add: interface_check_def del: object_satisfies_interface.simps)
  have bind_val:
    "(if v val = PNone \<and> (t val = Type_OBJECT \<or> t val = Type_FUNCTION) then
        (if declared_type formal = Type_OBJECT \<or> declared_type formal = Type_FUNCTION
         then Inr (Value (declared_type formal) PNone)
         else Inl (Error TYPE_ERROR))
      else
        (if t val \<noteq> declared_type formal then Inl (Error TYPE_ERROR)
         else Inr val)) = Inr val"
    using val obj decl by simp
  show ?thesis
    unfolding bind_param_def bind_val
    using assms(1,2,5) chk
    by (simp split: sum.splits)
qed

theorem ref_interface_must_not_differ_witness:
  "bind_param (Suc 0) ref_interface_state (Formal ''pA'' True Type_OBJECT (Some ''A'')) (Qname ''xB'')
        (Value Type_OBJECT (PObj 1)) = Inl (Error TYPE_ERROR)
   \<and> bind_param (Suc 0) ref_interface_state (Formal ''pA'' True Type_OBJECT (Some ''A'')) (Qname ''xo'')
        (Value Type_OBJECT (PObj 1)) = Inr (Ref_binding ''pA'' 0)"
proof -
  have sat: "object_satisfies_interface (Suc 0) ref_interface_state (Some ''A'')
               (Value Type_OBJECT (PObj 1)) = Inr True"
    by code_simp
  have iB: "interface_for_qname ''xB'' = Inr (Some ''B'')" by code_simp
  have io: "interface_for_qname ''xo'' = Inr None" by code_simp
  have c: "get_qname_cell ref_interface_state ''xo'' = Inr 0" by code_simp
  have r: "formal_ref (Formal ''pA'' True Type_OBJECT (Some ''A''))" by simp
  have i: "formal_interface (Formal ''pA'' True Type_OBJECT (Some ''A'')) = Some ''A''" by simp
  have d: "t (Value Type_OBJECT (PObj 1)) = declared_type (Formal ''pA'' True Type_OBJECT (Some ''A''))"
    by simp
  show ?thesis
    using ref_interface_must_not_differ [OF r i d sat iB]
          ref_interface_must_not_differ [OF r i d sat io]
    by (simp add: c)
qed

text \<open>
  C7 as stated fails: the name \<open>xo\<close> carries no interface, and binding it to the ref
  formal \<open>pA\<close> is no error; the program that does so prints the field.
\<close>

theorem ref_interface_counterexample:
  "interface_for_qname ''xo'' = Inr None
   \<and> bind_param 1 ref_interface_state (Formal ''pA'' True Type_OBJECT (Some ''A'')) (Qname ''xo'')
        (Value Type_OBJECT (PObj 1)) = Inr (Ref_binding ''pA'' 0)
   \<and> output_of (run 10 (ref_interface_program ''xo'') []) = Inr [''7'']"
  by code_simp

section \<open>Overload resolution\<close>

lemma param_match_spec:
  "length ptypes = length argvals \<Longrightarrow>
     param_match ptypes argvals = list_all2 spec_argument_matches ptypes argvals"
  by (induction ptypes argvals rule: list_induct2)
     (auto simp: spec_argument_matches_def is_nil_value_def)

lemma find_candidates_spec:
  "find_candidates table fcall_name actual_args = spec_candidates table fcall_name actual_args"
  by (induction table fcall_name actual_args rule: find_candidates.induct)
     (auto simp: spec_candidates_def param_match_spec)

text \<open>
  C5: a call whose name is no built-in, has no dot and is not bound in the environment,
  and whose arguments evaluate to values none of which is Void, is resolved against the
  function table: with no candidate, or more than one, it is a Name error, and with one
  candidate that function is invoked, on the evaluated arguments and without a closure.
  The candidates the code collects are those of the specification's wording.
\<close>

theorem overload_resolution:
  assumes "fcall_name \<noteq> ''inputi''" and "fcall_name \<noteq> ''inputs''" and "fcall_name \<noteq> ''print''"
    and "CHR ''.'' \<notin> set fcall_name"
    and "eval_args (eval_expr n) args st = Inr (actual_args, st1)"
    and "\<not> list_ex (\<lambda>arg. t arg = Type_VOID) actual_args"
    and "\<not> exists_env (cur_env st1) fcall_name"
  shows "run_fcall (Suc n) fcall_name args st =
     (case spec_candidates (funcs st1) fcall_name actual_args of
        [] \<Rightarrow> Inl (Error NAME_ERROR)
      | [func_def] \<Rightarrow> invoke_function (run_statements n) n func_def args actual_args None None st1
      | _ \<Rightarrow> Inl (Error NAME_ERROR))"
  using assms
  by (simp add: run_fcall_body_def find_candidates_spec)


theorem overload_resolution_witness:
  "run_fcall (Suc 8) ''pv'' [String_lit ''a''] overload_state
     = invoke_function (run_statements 8) 8
         (Func_def ''func'' ''pv'' [Formal ''xs'' False Type_STRING None]
            [Fcall_stmt ''print'' [String_lit ''str'']] Type_VOID None [Type_STRING])
         [String_lit ''a''] [Value Type_STRING (PStr ''a'')] None None overload_state
   \<and> run_fcall (Suc 8) ''qv'' [Nil_lit] overload_state = Inl (Error NAME_ERROR)
   \<and> run_fcall (Suc 8) ''pv'' [Bool_lit True] overload_state = Inl (Error NAME_ERROR)
   \<and> output_of (run 10 overload_program []) = Inr [''int'', ''str'', ''obj'']"
proof -
  have n1: "''pv'' \<noteq> ''inputi''" "''pv'' \<noteq> ''inputs''" "''pv'' \<noteq> ''print''"
       "CHR ''.'' \<notin> set ''pv''"
    by simp_all
  have n2: "''qv'' \<noteq> ''inputi''" "''qv'' \<noteq> ''inputs''" "''qv'' \<noteq> ''print''"
       "CHR ''.'' \<notin> set ''qv''"
    by simp_all
  have e1: "eval_args (eval_expr 8) [String_lit ''a''] overload_state
              = Inr ([Value Type_STRING (PStr ''a'')], overload_state)"
    by (simp add: eval_nat_numeral eval_expr_body_def)
  have e2: "eval_args (eval_expr 8) [Nil_lit] overload_state
              = Inr ([Value Type_OBJECT PNone], overload_state)"
    by (simp add: eval_nat_numeral eval_expr_body_def)
  have e3: "eval_args (eval_expr 8) [Bool_lit True] overload_state
              = Inr ([Value Type_BOOL (PBool True)], overload_state)"
    by (simp add: eval_nat_numeral eval_expr_body_def)
  have v1: "\<not> list_ex (\<lambda>arg. t arg = Type_VOID) [Value Type_STRING (PStr ''a'')]"
    and v2: "\<not> list_ex (\<lambda>arg. t arg = Type_VOID) [Value Type_OBJECT PNone]"
    and v3: "\<not> list_ex (\<lambda>arg. t arg = Type_VOID) [Value Type_BOOL (PBool True)]"
    by simp_all
  have x1: "\<not> exists_env (cur_env overload_state) ''pv''"
    and x2: "\<not> exists_env (cur_env overload_state) ''qv''"
    by code_simp+
  have c1: "spec_candidates (funcs overload_state) ''pv'' [Value Type_STRING (PStr ''a'')]
      = [Func_def ''func'' ''pv'' [Formal ''xs'' False Type_STRING None]
            [Fcall_stmt ''print'' [String_lit ''str'']] Type_VOID None [Type_STRING]]"
    by code_simp
  have c2: "spec_candidates (funcs overload_state) ''qv'' [Value Type_OBJECT PNone]
      = [Func_def ''func'' ''qv'' [Formal ''xo'' False Type_OBJECT None]
            [Fcall_stmt ''print'' [String_lit ''obj'']] Type_VOID None [Type_OBJECT],
         Func_def ''func'' ''qv'' [Formal ''xf'' False Type_FUNCTION None]
            [Fcall_stmt ''print'' [String_lit ''fun'']] Type_VOID None [Type_FUNCTION]]"
    by code_simp
  have c3: "spec_candidates (funcs overload_state) ''pv'' [Value Type_BOOL (PBool True)] = []"
    by code_simp
  have r: "output_of (run 10 overload_program []) = Inr [''int'', ''str'', ''obj'']"
    by code_simp
  show ?thesis
    using overload_resolution [OF n1 e1 v1 x1] overload_resolution [OF n2 e2 v2 x2]
          overload_resolution [OF n1 e3 v3 x1] r
    by (simp only: c1 c2 c3 list.case simp_thms)
qed

section \<open>Reference parameters\<close>

lemma split_dots_plain: "CHR ''.'' \<notin> set p \<Longrightarrow> split_dots p = [p]"
  by (induction p) auto

lemma bind_param_ref_binds_cell:
  assumes "formal_ref formal" and "bind_param n st formal ex val = Inr b"
  shows "\<exists>name c. ex = Qname name \<and> get_qname_cell st name = Inr c
           \<and> b = Ref_binding (formal_name formal) c"
  using assms
  by (auto simp: bind_param_def split: if_splits sum.splits expr.splits option.splits)

lemma bind_param_ref_not_qname:
  assumes "formal_ref formal" and "\<forall>name. ex \<noteq> Qname name"
  shows "(\<forall>b. bind_param n st formal ex val \<noteq> Inr b)
       \<and> (\<forall>e. bind_param n st formal ex val = Inl e \<longrightarrow>
              e = Error TYPE_ERROR \<or> (\<exists>bv. interface_check n st (formal_interface formal) bv = Inl e))"
  using assms
  by (auto simp: bind_param_def split: if_splits sum.splits expr.splits option.splits)

lemma bind_params_nth:
  "bind_params n st fs es vs = Inr bs \<Longrightarrow> length es = length fs \<Longrightarrow> length vs = length fs \<Longrightarrow>
     length bs = length fs \<and> (\<forall>i<length fs. bind_param n st (fs ! i) (es ! i) (vs ! i) = Inr (bs ! i))"
proof (induction n st fs es vs arbitrary: bs rule: bind_params.induct)
  case (1 n st formal formals argument_expression exprs argument_value vals)
  from "1.prems"(1) obtain b bs' where
    b: "bind_param n st formal argument_expression argument_value = Inr b"
    and bs': "bind_params n st formals exprs vals = Inr bs'"
    and bs: "bs = b # bs'"
    by (auto split: sum.splits)
  from "1.IH" [OF b bs'] "1.prems" have
    "length bs' = length formals \<and>
     (\<forall>i<length formals. bind_param n st (formals ! i) (exprs ! i) (vals ! i) = Inr (bs' ! i))"
    by simp
  with b bs show ?case by (auto simp: nth_Cons split: nat.splits)
qed auto


lemma cur_env_set_cur_env:
  "env st < length (env_lists st) \<Longrightarrow> cur_env (set_cur_env e st) = e"
  by (simp add: cur_env_def set_cur_env_def)

lemma fdef_function_cell_frame:
  assumes "fdef_function_cell (callers @ [fb # blks]) p c = Inr (ok, stack)"
  shows "ok \<longleftrightarrow> map_of fb p = None"
    and "ok \<Longrightarrow> stack = callers @ [AList.update p c fb # blks]"
  using assms
  by (auto simp: fdef_function_cell_def exists_in_function_scope_def split: if_splits bool.splits)

lemma install_bindings_frame:
  assumes "install_bindings bs st = Inr st'"
      and "env st < length (env_lists st)"
      and "cur_env st = callers @ [fb # blks]"
  shows "\<exists>fb'. cur_env st' = callers @ [fb' # blks]
           \<and> env st' = env st \<and> length (env_lists st') = length (env_lists st)
           \<and> (\<forall>x d. map_of fb x = Some d \<longrightarrow> map_of fb' x = Some d)
           \<and> (\<forall>p c. Ref_binding p c \<in> set bs \<longrightarrow> map_of fb' p = Some c)
           \<and> (\<exists>ext. cells st' = cells st @ ext) \<and> heap st' = heap st"
  using assms
proof (induction bs arbitrary: st fb)
  case Nil
  then show ?case by auto
next
  case (Cons b bs)
  show ?case
  proof (cases b)
    case (Ref_binding p c)
    from Cons.prems(1) Ref_binding obtain stack where
      f: "fdef_function_cell (cur_env st) p c = Inr (True, stack)"
      and rest: "install_bindings bs (set_cur_env stack st) = Inr st'"
      by (auto split: sum.splits if_splits)
    from f Cons.prems(3) have fresh: "map_of fb p = None"
      and stack: "stack = callers @ [AList.update p c fb # blks]"
      using fdef_function_cell_frame [of callers fb blks p c True stack] by auto
    let ?st1 = "set_cur_env stack st"
    have wf1: "env ?st1 < length (env_lists ?st1)"
      using Cons.prems(2) by (simp add: set_cur_env_def)
    have cur1: "cur_env ?st1 = callers @ [AList.update p c fb # blks]"
      using Cons.prems(2) stack by (simp add: cur_env_set_cur_env)
    from Cons.IH [OF rest wf1 cur1] obtain fb' where
      a: "cur_env st' = callers @ [fb' # blks]"
      and b: "env st' = env ?st1" "length (env_lists st') = length (env_lists ?st1)"
      and c: "\<forall>x d. map_of (AList.update p c fb) x = Some d \<longrightarrow> map_of fb' x = Some d"
      and d: "\<forall>q e. Ref_binding q e \<in> set bs \<longrightarrow> map_of fb' q = Some e"
      and e: "\<exists>ext. cells st' = cells ?st1 @ ext" "heap st' = heap ?st1"
      by blast
    have c1: "map_of fb' p = Some c"
      using c by (simp add: update_conv)
    have c2: "\<forall>x d. map_of fb x = Some d \<longrightarrow> map_of fb' x = Some d"
    proof (intro allI impI)
      fix x d
      assume x: "map_of fb x = Some d"
      with fresh have "x \<noteq> p" by auto
      with x have "map_of (AList.update p c fb) x = Some d" by (simp add: update_conv)
      with c show "map_of fb' x = Some d" by blast
    qed
    from a b c1 c2 d e Ref_binding show ?thesis
      by (auto simp: set_cur_env_def)
  next
    case (Val_binding p val)
    from Cons.prems(1) Val_binding obtain st1 where
      f: "fdef_function st p val = Inr (True, st1)"
      and rest: "install_bindings bs st1 = Inr st'"
      by (auto split: sum.splits if_splits)
    from f obtain stack where
      g: "fdef_function_cell (cur_env st) p (length (cells st)) = Inr (True, stack)"
      and st1: "st1 = (set_cur_env stack st)\<lparr>cells := cells st @ [val]\<rparr>"
      by (auto simp: fdef_function_def split: sum.splits if_splits)
    from g Cons.prems(3) have fresh: "map_of fb p = None"
      and stack: "stack = callers @ [AList.update p (length (cells st)) fb # blks]"
      using fdef_function_cell_frame [of callers fb blks p "length (cells st)" True stack] by auto
    have wf1: "env st1 < length (env_lists st1)"
      using Cons.prems(2) st1 by (simp add: set_cur_env_def)
    have cur1: "cur_env st1 = callers @ [AList.update p (length (cells st)) fb # blks]"
      using Cons.prems(2) stack st1 by (simp add: cur_env_def set_cur_env_def)
    from Cons.IH [OF rest wf1 cur1] obtain fb' where
      a: "cur_env st' = callers @ [fb' # blks]"
      and b: "env st' = env st1" "length (env_lists st') = length (env_lists st1)"
      and c: "\<forall>x d. map_of (AList.update p (length (cells st)) fb) x = Some d \<longrightarrow> map_of fb' x = Some d"
      and d: "\<forall>q e. Ref_binding q e \<in> set bs \<longrightarrow> map_of fb' q = Some e"
      and e: "\<exists>ext. cells st' = cells st1 @ ext" "heap st' = heap st1"
      by blast
    have c2: "\<forall>x d. map_of fb x = Some d \<longrightarrow> map_of fb' x = Some d"
    proof (intro allI impI)
      fix x d
      assume x: "map_of fb x = Some d"
      with fresh have "x \<noteq> p" by auto
      with x have "map_of (AList.update p (length (cells st)) fb) x = Some d" by (simp add: update_conv)
      with c show "map_of fb' x = Some d" by blast
    qed
    from a b c2 d e Val_binding st1 show ?thesis
      by (auto simp: set_cur_env_def)
  qed
qed

lemma get_current_cell_top_block:
  "map_of fb p = Some c \<Longrightarrow> get_current_cell (callers @ [[fb]]) p = Some c"
  by (simp add: get_current_cell_def)

lemma set_qname_value_plain:
  assumes "CHR ''.'' \<notin> set p"
      and "get_current_cell (cur_env s) p = Some c"
      and "set_qname_value n s p x = Inr s'"
  shows "\<exists>ty. type_from_name p = Inr ty
           \<and> s' = s\<lparr>cells := (cells s)[c := (if is_nil_value x then Value ty PNone else x)]\<rparr>"
  using assms
  by (auto simp: set_qname_value_def split_dots_plain assign_check_def is_nil_value_def Let_def
           split: sum.splits if_splits option.splits)


lemma interface_check_nil:
  "interface_check n st fi (Value ty PNone) = Inr ()
   \<or> interface_check n st fi (Value ty PNone) = Inl (Error TYPE_ERROR)"
  by (simp add: interface_check_def split: option.splits)

lemma bind_param_ref_type_error:
  assumes "formal_ref formal" and "\<forall>name. ex \<noteq> Qname name"
      and "\<forall>e. interface_check n st (formal_interface formal) val = Inl e \<longrightarrow> e = Error TYPE_ERROR"
  shows "bind_param n st formal ex val = Inl (Error TYPE_ERROR)"
proof (cases "v val = PNone \<and> (t val = Type_OBJECT \<or> t val = Type_FUNCTION)")
  case True
  show ?thesis
    using assms(1,2) True interface_check_nil [of n st "formal_interface formal" "declared_type formal"]
    by (auto simp: bind_param_def simp del: object_satisfies_interface.simps
             split: sum.splits expr.splits)
next
  case False
  show ?thesis
    using assms False
    by (auto simp: bind_param_def simp del: object_satisfies_interface.simps
             split: sum.splits expr.splits)
qed

lemma bind_params_first_error:
  "i < length fs \<Longrightarrow> length es = length fs \<Longrightarrow> length vs = length fs \<Longrightarrow>
   (\<forall>j<i. \<exists>b. bind_param n st (fs ! j) (es ! j) (vs ! j) = Inr b) \<Longrightarrow>
   bind_param n st (fs ! i) (es ! i) (vs ! i) = Inl e \<Longrightarrow>
   bind_params n st fs es vs = Inl e"
proof (induction n st fs es vs arbitrary: i rule: bind_params.induct)
  case (1 n st formal formals argument_expression exprs argument_value vals)
  show ?case
  proof (cases i)
    case 0
    with "1.prems"(5) show ?thesis by simp
  next
    case (Suc k)
    from "1.prems"(4) Suc obtain b where
      b: "bind_param n st formal argument_expression argument_value = Inr b"
      by fastforce
    have prev: "\<forall>j<k. \<exists>b. bind_param n st (formals ! j) (exprs ! j) (vals ! j) = Inr b"
    proof (intro allI impI)
      fix j assume "j < k"
      with "1.prems"(4) [rule_format, of "Suc j"] Suc
      show "\<exists>b. bind_param n st (formals ! j) (exprs ! j) (vals ! j) = Inr b" by simp
    qed
    have "bind_params n st formals exprs vals = Inl e"
      using "1.IH" [OF b, of k] "1.prems" Suc prev by simp
    with b show ?thesis by simp
  qed
qed auto


lemma set_cur_env_fields:
  "cells (set_cur_env e s) = cells s" "heap (set_cur_env e s) = heap s"
  "env (set_cur_env e s) = env s" "length (env_lists (set_cur_env e s)) = length (env_lists s)"
  by (simp_all add: set_cur_env_def)

lemma invoke_function_success:
  fixes st st2 st3 :: interp and closure :: "nat option" and fd :: func_def
  defines "st2 \<equiv> (case closure of None \<Rightarrow> st | Some ce \<Rightarrow> st\<lparr>env := ce\<rparr>)
                     \<lparr>current_return_type := return_type fd,
                      current_return_interface := return_interface fd\<rparr>"
  defines "st3 \<equiv> set_cur_env (enter_func (cur_env st2)) st2"
  assumes "invoke_function rs n fd exprs vals closure self st = Inr (res, stF)"
  obtains bindings st4 st5 ret st6 where
    "length (fd_args fd) = length vals"
    "bind_params n st (fd_args fd) exprs vals = Inr bindings"
    "(case self of
        None \<Rightarrow> Inr st3
      | Some owner \<Rightarrow>
          (case fdef_function st3 ''selfo'' owner of
             Inl e \<Rightarrow> Inl e
           | Inr (ok, st4) \<Rightarrow> if ok then Inr st4 else Inl (Error NAME_ERROR))) = Inr st4"
    "install_bindings bindings st4 = Inr st5"
    "rs (fd_statements fd) st5 = Inr ((res, ret), st6)"
    "cells stF = cells st6" "heap stF = heap st6"
  using assms(3) that unfolding st2_def st3_def
  by (auto simp: invoke_function_def Let_def set_cur_env_fields
           split: if_splits sum.splits prod.splits)


lemma callee_frame:
  assumes "env st2 < length (env_lists st2)"
      and "(case self of
              None \<Rightarrow> Inr (set_cur_env (enter_func (cur_env st2)) st2)
            | Some owner \<Rightarrow>
                (case fdef_function (set_cur_env (enter_func (cur_env st2)) st2) ''selfo'' owner of
                   Inl e \<Rightarrow> Inl e
                 | Inr (ok, st4) \<Rightarrow> if ok then Inr st4 else Inl (Error NAME_ERROR))) = Inr st4"
  shows "\<exists>fb. cur_env st4 = cur_env st2 @ [[fb]] \<and> env st4 < length (env_lists st4)"
proof (cases self)
  case None
  with assms show ?thesis
    by (auto simp: cur_env_set_cur_env enter_func_def set_cur_env_fields)
next
  case (Some owner)
  let ?st3 = "set_cur_env (enter_func (cur_env st2)) st2"
  have cur3: "cur_env ?st3 = cur_env st2 @ [[] # []]"
    using assms(1) by (simp add: cur_env_set_cur_env enter_func_def)
  from assms(2) Some have f: "fdef_function ?st3 ''selfo'' owner = Inr (True, st4)"
    by (auto split: sum.splits if_splits)
  then obtain stack where
    g: "fdef_function_cell (cur_env ?st3) ''selfo'' (length (cells ?st3)) = Inr (True, stack)"
    and st4: "st4 = (set_cur_env stack ?st3)\<lparr>cells := cells ?st3 @ [owner]\<rparr>"
    by (auto simp: fdef_function_def split: sum.splits if_splits)
  from g cur3 have stack: "stack = cur_env st2 @ [AList.update ''selfo'' (length (cells ?st3)) [] # []]"
    using fdef_function_cell_frame(2) [of "cur_env st2" "[]" "[]" "''selfo''" "length (cells ?st3)" True stack]
    by simp
  have "cur_env st4 = stack"
    using assms(1) st4 by (simp add: cur_env_def set_cur_env_def)
  with stack st4 assms(1) show ?thesis
    by (simp add: set_cur_env_fields)
qed

lemma not_qname_never_binds:
  assumes lens: "length exprs = length vals"
      and i: "i < length (fd_args fd)"
      and r: "formal_ref (fd_args fd ! i)"
      and nq: "\<forall>name. exprs ! i \<noteq> Qname name"
  shows "invoke_function rs n fd exprs vals closure self st \<noteq> Inr out"
proof
  assume call: "invoke_function rs n fd exprs vals closure self st = Inr out"
  obtain res stF where out: "out = (res, stF)" by (cases out)
  from call out have "invoke_function rs n fd exprs vals closure self st = Inr (res, stF)"
    by simp
  then obtain bindings where
    len: "length (fd_args fd) = length vals"
    and bp: "bind_params n st (fd_args fd) exprs vals = Inr bindings"
    by (auto simp: invoke_function_def split: if_splits sum.splits)
  have le: "length exprs = length (fd_args fd)" and lv: "length vals = length (fd_args fd)"
    using lens len by (simp_all only:)
  from bind_params_nth [OF bp le lv] i
  have "bind_param n st (fd_args fd ! i) (exprs ! i) (vals ! i) = Inr (bindings ! i)" by blast
  with bind_param_ref_not_qname [OF r nq] show False by blast
qed

lemma not_qname_type_error:
  assumes lens: "length exprs = length vals"
      and i: "i < length (fd_args fd)"
      and r: "formal_ref (fd_args fd ! i)"
      and nq: "\<forall>name. exprs ! i \<noteq> Qname name"
      and len: "length (fd_args fd) = length vals"
      and prev: "\<forall>j<i. \<exists>b. bind_param n st (fd_args fd ! j) (exprs ! j) (vals ! j) = Inr b"
      and chk: "\<forall>e. interface_check n st (formal_interface (fd_args fd ! i)) (vals ! i) = Inl e
                  \<longrightarrow> e = Error TYPE_ERROR"
  shows "invoke_function rs n fd exprs vals closure self st = Inl (Error TYPE_ERROR)"
proof -
  have "bind_param n st (fd_args fd ! i) (exprs ! i) (vals ! i) = Inl (Error TYPE_ERROR)"
    using bind_param_ref_type_error [OF r nq chk] .
  moreover have le: "length exprs = length (fd_args fd)"
    and lv: "length vals = length (fd_args fd)"
    using lens len by (simp_all only:)
  ultimately have "bind_params n st (fd_args fd) exprs vals = Inl (Error TYPE_ERROR)"
    using bind_params_first_error [OF i le lv prev] by blast
  with len show ?thesis by (simp add: invoke_function_def)
qed

lemma ref_formal_bound_to_cell:
  assumes wf: "env st < length (env_lists st)"
      and wfc: "\<forall>ce. closure = Some ce \<longrightarrow> ce < length (env_lists st)"
      and lens: "length exprs = length vals"
      and i: "i < length (fd_args fd)"
      and r: "formal_ref (fd_args fd ! i)"
      and call: "invoke_function rs n fd exprs vals closure self st = Inr (res, stF)"
  shows "\<exists>name c st5 ret st6.
           exprs ! i = Qname name \<and> get_qname_cell st name = Inr c
         \<and> rs (fd_statements fd) st5 = Inr ((res, ret), st6)
         \<and> get_current_cell (cur_env st5) (formal_name (fd_args fd ! i)) = Some c
         \<and> cells stF = cells st6"
proof -
  let ?st2 = "(case closure of None \<Rightarrow> st | Some ce \<Rightarrow> st\<lparr>env := ce\<rparr>)
                 \<lparr>current_return_type := return_type fd,
                  current_return_interface := return_interface fd\<rparr>"
  from call obtain bindings st4 st5 ret st6 where
    len: "length (fd_args fd) = length vals"
    and bp: "bind_params n st (fd_args fd) exprs vals = Inr bindings"
    and s4: "(case self of
        None \<Rightarrow> Inr (set_cur_env (enter_func (cur_env ?st2)) ?st2)
      | Some owner \<Rightarrow>
          (case fdef_function (set_cur_env (enter_func (cur_env ?st2)) ?st2) ''selfo'' owner of
             Inl e \<Rightarrow> Inl e
           | Inr (ok, st4) \<Rightarrow> if ok then Inr st4 else Inl (Error NAME_ERROR))) = Inr st4"
    and inst: "install_bindings bindings st4 = Inr st5"
    and body: "rs (fd_statements fd) st5 = Inr ((res, ret), st6)"
    and cs: "cells stF = cells st6"
    by (rule invoke_function_success)
  have wf2: "env ?st2 < length (env_lists ?st2)"
    using wf wfc by (cases closure) auto
  from callee_frame [OF wf2 s4] obtain fb where
    cur4: "cur_env st4 = cur_env ?st2 @ [fb # []]" and wf4: "env st4 < length (env_lists st4)"
    by auto
  from install_bindings_frame [OF inst wf4 cur4] obtain fb' where
    cur5: "cur_env st5 = cur_env ?st2 @ [[fb']]"
    and refs: "\<forall>p c. Ref_binding p c \<in> set bindings \<longrightarrow> map_of fb' p = Some c"
    by auto
  have le: "length exprs = length (fd_args fd)" and lv: "length vals = length (fd_args fd)"
    using lens len by (simp_all only:)
  from bind_params_nth [OF bp le lv] i
  have lb: "length bindings = length (fd_args fd)"
    and bi: "bind_param n st (fd_args fd ! i) (exprs ! i) (vals ! i) = Inr (bindings ! i)"
    by blast+
  from bind_param_ref_binds_cell [OF r bi] obtain name c where
    q: "exprs ! i = Qname name" and c: "get_qname_cell st name = Inr c"
    and b: "bindings ! i = Ref_binding (formal_name (fd_args fd ! i)) c"
    by auto
  from b lb i have "Ref_binding (formal_name (fd_args fd ! i)) c \<in> set bindings"
    by (metis nth_mem)
  with refs have "map_of fb' (formal_name (fd_args fd ! i)) = Some c" by blast
  with cur5 have "get_current_cell (cur_env st5) (formal_name (fd_args fd ! i)) = Some c"
    by (simp add: get_current_cell_top_block)
  with q c body cs show ?thesis by blast
qed

text \<open>
  C3: in a call that binds a ref formal parameter (the \<open>i\<close>-th of the function), an argument
  expression that is not a qualified name makes the call fail: it never returns, and it is
  a Type error whenever the parameters before it bind and the conformance check of the
  argument value against the formal's interface raises no other error first. When the call
  returns, the argument is a qualified name, and the body has run in a state whose lookup of
  the formal's name gives the very cell that \<open>get_qname_cell\<close> resolved from the argument's
  name in the caller; the cells after the call are those the body left. An assignment to
  the formal's name, in any state of the callee where the name resolves to that cell,
  stores the assigned value (a nil takes the tag of the formal's name) in that cell, so
  that it is the value read through the caller's cell.
\<close>

theorem ref_parameter_shares_cell:
  assumes wf: "env st < length (env_lists st)"
      and wfc: "\<forall>ce. closure = Some ce \<longrightarrow> ce < length (env_lists st)"
      and lens: "length exprs = length vals"
      and i: "i < length (fd_args fd)"
      and r: "formal_ref (fd_args fd ! i)"
      and nodot: "CHR ''.'' \<notin> set (formal_name (fd_args fd ! i))"
  shows "((\<forall>name. exprs ! i \<noteq> Qname name) \<longrightarrow>
            (\<forall>out. invoke_function rs n fd exprs vals closure self st \<noteq> Inr out)
          \<and> (length (fd_args fd) = length vals
             \<and> (\<forall>j<i. \<exists>b. bind_param n st (fd_args fd ! j) (exprs ! j) (vals ! j) = Inr b)
             \<and> (\<forall>e. interface_check n st (formal_interface (fd_args fd ! i)) (vals ! i) = Inl e
                    \<longrightarrow> e = Error TYPE_ERROR)
             \<longrightarrow> invoke_function rs n fd exprs vals closure self st = Inl (Error TYPE_ERROR)))
       \<and> (\<forall>res stF. invoke_function rs n fd exprs vals closure self st = Inr (res, stF) \<longrightarrow>
            (\<exists>name c st5 ret st6.
               exprs ! i = Qname name \<and> get_qname_cell st name = Inr c
             \<and> rs (fd_statements fd) st5 = Inr ((res, ret), st6)
             \<and> get_current_cell (cur_env st5) (formal_name (fd_args fd ! i)) = Some c
             \<and> cells stF = cells st6))
       \<and> (\<forall>s c x s'.
            get_current_cell (cur_env s) (formal_name (fd_args fd ! i)) = Some c
            \<and> c < length (cells s)
            \<and> set_qname_value n s (formal_name (fd_args fd ! i)) x = Inr s' \<longrightarrow>
            (\<exists>ty. type_from_name (formal_name (fd_args fd ! i)) = Inr ty
                \<and> cells s' ! c = (if is_nil_value x then Value ty PNone else x)))"
proof (intro conjI allI impI)
  fix out
  assume "\<forall>name. exprs ! i \<noteq> Qname name"
  then show "invoke_function rs n fd exprs vals closure self st \<noteq> Inr out"
    using not_qname_never_binds [OF lens i r] by blast
next
  assume nq: "\<forall>name. exprs ! i \<noteq> Qname name"
    and rest: "length (fd_args fd) = length vals
       \<and> (\<forall>j<i. \<exists>b. bind_param n st (fd_args fd ! j) (exprs ! j) (vals ! j) = Inr b)
       \<and> (\<forall>e. interface_check n st (formal_interface (fd_args fd ! i)) (vals ! i) = Inl e
              \<longrightarrow> e = Error TYPE_ERROR)"
  from rest have len: "length (fd_args fd) = length vals"
    and prev: "\<forall>j<i. \<exists>b. bind_param n st (fd_args fd ! j) (exprs ! j) (vals ! j) = Inr b"
    and chk: "\<forall>e. interface_check n st (formal_interface (fd_args fd ! i)) (vals ! i) = Inl e
                \<longrightarrow> e = Error TYPE_ERROR"
    by blast+
  show "invoke_function rs n fd exprs vals closure self st = Inl (Error TYPE_ERROR)"
    using not_qname_type_error [OF lens i r nq len prev chk] .
next
  fix res stF
  assume "invoke_function rs n fd exprs vals closure self st = Inr (res, stF)"
  then show "\<exists>name c st5 ret st6.
               exprs ! i = Qname name \<and> get_qname_cell st name = Inr c
             \<and> rs (fd_statements fd) st5 = Inr ((res, ret), st6)
             \<and> get_current_cell (cur_env st5) (formal_name (fd_args fd ! i)) = Some c
             \<and> cells stF = cells st6"
    using ref_formal_bound_to_cell [OF wf wfc lens i r] by blast
next
  fix s c x s'
  assume a: "get_current_cell (cur_env s) (formal_name (fd_args fd ! i)) = Some c
            \<and> c < length (cells s)
            \<and> set_qname_value n s (formal_name (fd_args fd ! i)) x = Inr s'"
  then obtain ty where ty: "type_from_name (formal_name (fd_args fd ! i)) = Inr ty"
    and s': "s' = s\<lparr>cells := (cells s)[c := (if is_nil_value x then Value ty PNone else x)]\<rparr>"
    using set_qname_value_plain [OF nodot, of s c n x s'] by blast
  from a s' have "cells s' ! c = (if is_nil_value x then Value ty PNone else x)"
    by simp
  with ty show "\<exists>ty. type_from_name (formal_name (fd_args fd ! i)) = Inr ty
                \<and> cells s' ! c = (if is_nil_value x then Value ty PNone else x)"
    by blast
qed

theorem ref_parameter_shares_cell_witness:
  "invoke_function (run_statements 5) 5 ref_increment [Int_lit 41] [Value Type_INT (PInt 41)]
      None None ref_call_state = Inl (Error TYPE_ERROR)
   \<and> (\<exists>c st5 ret st6.
         get_qname_cell ref_call_state ''xi'' = Inr c
       \<and> run_statements 5 (fd_statements ref_increment) st5
           = Inr ((Value Type_VOID PNone, ret), st6)
       \<and> get_current_cell (cur_env st5) ''ni'' = Some c
       \<and> cells st6 = [Value Type_INT (PInt 42)])
   \<and> cells (ref_callee_state\<lparr>cells := [Value Type_INT (PInt 42)]\<rparr>) ! 0 = Value Type_INT (PInt 42)
   \<and> output_of (run 10 ref_program []) = Inr [''42'']"
proof -
  have wf: "env ref_call_state < length (env_lists ref_call_state)"
    by (simp add: ref_call_state_def init_interp_def)
  have wfc: "\<forall>ce. (None :: nat option) = Some ce \<longrightarrow> ce < length (env_lists ref_call_state)"
    by simp
  have i: "0 < length (fd_args ref_increment)"
    and r: "formal_ref (fd_args ref_increment ! 0)"
    and nodot: "CHR ''.'' \<notin> set (formal_name (fd_args ref_increment ! 0))"
    and name: "formal_name (fd_args ref_increment ! 0) = ''ni''"
    by (simp_all add: ref_increment_def)
  have lens1: "length [Int_lit 41] = length [Value Type_INT (PInt 41)]"
    and lens2: "length [Qname ''xi''] = length [Value Type_INT (PInt 41)]"
    by simp_all
  have nq: "\<forall>name. [Int_lit 41] ! 0 \<noteq> Qname name" by simp
  have len: "length (fd_args ref_increment) = length [Value Type_INT (PInt 41)]"
    by (simp add: ref_increment_def)
  have prev: "\<forall>j<0. \<exists>b. bind_param 5 ref_call_state (fd_args ref_increment ! j)
                 ([Int_lit 41] ! j) ([Value Type_INT (PInt 41)] ! j) = Inr b"
    by simp
  have chk: "\<forall>e. interface_check 5 ref_call_state (formal_interface (fd_args ref_increment ! 0))
                 ([Value Type_INT (PInt 41)] ! 0) = Inl e \<longrightarrow> e = Error TYPE_ERROR"
    by (simp add: ref_increment_def interface_check_def)
  have call: "invoke_function (run_statements 5) 5 ref_increment [Qname ''xi'']
         [Value Type_INT (PInt 41)] None None ref_call_state
       = Inr (Value Type_VOID PNone, ref_call_state\<lparr>cells := [Value Type_INT (PInt 42)]\<rparr>)"
    by code_simp
  have look: "get_current_cell (cur_env ref_callee_state) ''ni'' = Some 0"
    and inrange: "0 < length (cells ref_callee_state)"
    and assign: "set_qname_value 5 ref_callee_state ''ni'' (Value Type_INT (PInt 42))
                   = Inr (ref_callee_state\<lparr>cells := [Value Type_INT (PInt 42)]\<rparr>)"
    by code_simp+
  have notnil: "\<not> is_nil_value (Value Type_INT (PInt 42))"
    by (simp add: is_nil_value_def)
  have run: "output_of (run 10 ref_program []) = Inr [''42'']"
    by code_simp
  note A = ref_parameter_shares_cell [where rs = "run_statements 5" and n = 5 and self = None,
             OF wf wfc lens1 i r nodot]
  note B = ref_parameter_shares_cell [where rs = "run_statements 5" and n = 5 and self = None,
             OF wf wfc lens2 i r nodot]
  from A nq len prev chk
  have a: "invoke_function (run_statements 5) 5 ref_increment [Int_lit 41]
             [Value Type_INT (PInt 41)] None None ref_call_state = Inl (Error TYPE_ERROR)"
    by blast
  from B call
  have "\<exists>name c st5 ret st6.
          [Qname ''xi''] ! 0 = Qname name \<and> get_qname_cell ref_call_state name = Inr c
        \<and> run_statements 5 (fd_statements ref_increment) st5
            = Inr ((Value Type_VOID PNone, ret), st6)
        \<and> get_current_cell (cur_env st5) (formal_name (fd_args ref_increment ! 0)) = Some c
        \<and> cells (ref_call_state\<lparr>cells := [Value Type_INT (PInt 42)]\<rparr>) = cells st6"
    by blast
  then have b: "\<exists>c st5 ret st6.
         get_qname_cell ref_call_state ''xi'' = Inr c
       \<and> run_statements 5 (fd_statements ref_increment) st5
           = Inr ((Value Type_VOID PNone, ret), st6)
       \<and> get_current_cell (cur_env st5) ''ni'' = Some c
       \<and> cells st6 = [Value Type_INT (PInt 42)]"
    unfolding name by fastforce
  from B look inrange assign
  have "\<exists>ty. type_from_name (formal_name (fd_args ref_increment ! 0)) = Inr ty
          \<and> cells (ref_callee_state\<lparr>cells := [Value Type_INT (PInt 42)]\<rparr>) ! 0
              = (if is_nil_value (Value Type_INT (PInt 42)) then Value ty PNone
                 else Value Type_INT (PInt 42))"
    unfolding name by blast
  with notnil have c: "cells (ref_callee_state\<lparr>cells := [Value Type_INT (PInt 42)]\<rparr>) ! 0
              = Value Type_INT (PInt 42)"
    by (simp only: if_False) blast
  from a b c run show ?thesis by blast
qed
section \<open>Closure capture\<close>

lemma copied_value:
  "(if t x = Type_INT \<or> t x = Type_STRING \<or> t x = Type_BOOL then Value (t x) (v x) else x) = x"
  by simp

lemma capture_block_cells:
  "capture_block b cs = (nb, cs') \<Longrightarrow>
     map fst nb = map fst b \<and> map snd nb = [length cs ..< length cs'] 
     \<and> length cs' = length cs + length b \<and> (\<exists>ext. cs' = cs @ ext)"
proof (induction b arbitrary: cs nb cs')
  case Nil
  then show ?case by simp
next
  case (Cons item items)
  obtain name c where item: "item = (name, c)" by (cases item)
  obtain nb0 where rest: "capture_block items (cs @ [cs ! c]) = (nb0, cs')"
    and nb: "nb = (name, length cs) # nb0"
    using Cons.prems item by (auto simp: copied_value split: prod.splits)
  from Cons.IH [OF rest] have
    a: "map fst nb0 = map fst items"
    and b: "map snd nb0 = [Suc (length cs) ..< length cs']"
    and c: "length cs' = Suc (length cs) + length items"
    and d: "\<exists>ext. cs' = (cs @ [cs ! c]) @ ext"
    by auto
  from c have "length cs < length cs'" by simp
  then have "[length cs ..< length cs'] = length cs # [Suc (length cs) ..< length cs']"
    by (rule upt_conv_Cons)
  with a b c d nb item show ?case by auto
qed

lemma capture_block_lookup:
  assumes "capture_block b cs = (nb, cs')"
      and "\<forall>c\<in>snd ` set b. c < length cs"
  shows "(map_of b x = None \<longrightarrow> map_of nb x = None)
       \<and> (\<forall>c. map_of b x = Some c \<longrightarrow>
             (\<exists>c'. map_of nb x = Some c' \<and> length cs \<le> c' \<and> c' < length cs'
                   \<and> cs' ! c' = cs ! c))"
  using assms
proof (induction b arbitrary: cs nb cs')
  case Nil
  then show ?case by simp
next
  case (Cons item items)
  obtain name c0 where item: "item = (name, c0)" by (cases item)
  obtain nb0 where rest: "capture_block items (cs @ [cs ! c0]) = (nb0, cs')"
    and nb: "nb = (name, length cs) # nb0"
    using Cons.prems(1) item by (auto simp: copied_value split: prod.splits)
  from capture_block_cells [OF rest] obtain ext where
    ext: "cs' = (cs @ [cs ! c0]) @ ext" and len: "length cs' = Suc (length cs) + length items"
    by auto
  have wf: "\<forall>c\<in>snd ` set items. c < length (cs @ [cs ! c0])"
    using Cons.prems(2) by auto
  note IH = Cons.IH [OF rest wf]
  show ?case
  proof (cases "x = name")
    case True
    have "cs' ! length cs = cs ! c0" using ext by (simp add: nth_append)
    with True item nb len show ?thesis by simp
  next
    case False
    have old: "\<And>c. map_of items x = Some c \<Longrightarrow> (cs @ [cs ! c0]) ! c = cs ! c"
    proof -
      fix c assume "map_of items x = Some c"
      then have "c \<in> snd ` set items" by (force dest: map_of_SomeD)
      with Cons.prems(2) have "c < length cs" by auto
      then show "(cs @ [cs ! c0]) ! c = cs ! c" by (simp add: nth_append)
    qed
    from False item nb IH old show ?thesis by fastforce
  qed
qed


lemma scan_blocks_SomeD:
  "scan_blocks bs x = Some c \<Longrightarrow> \<exists>b\<in>set bs. c \<in> snd ` set b"
  by (induction bs) (force dest: map_of_SomeD split: option.splits)+

lemma scan_frames_SomeD:
  "scan_frames fs x = Some c \<Longrightarrow> \<exists>f\<in>set fs. \<exists>b\<in>set f. c \<in> snd ` set b"
proof (induction fs)
  case Nil
  then show ?case by simp
next
  case (Cons f fs)
  show ?case
  proof (cases "scan_blocks (rev f) x")
    case None
    with Cons show ?thesis by auto
  next
    case (Some d)
    with Cons.prems have "d = c" by simp
    with Some scan_blocks_SomeD [of "rev f" x c] show ?thesis by auto
  qed
qed

lemma capture_frame_cells:
  "capture_frame f cs = (nf, cs') \<Longrightarrow>
     map (map fst) nf = map (map fst) f
     \<and> concat (map (map snd) nf) = [length cs ..< length cs']
     \<and> length cs \<le> length cs' \<and> (\<exists>ext. cs' = cs @ ext)"
proof (induction f arbitrary: cs nf cs')
  case Nil
  then show ?case by simp
next
  case (Cons block blocks)
  obtain nb cs1 nf0 where blk: "capture_block block cs = (nb, cs1)"
    and rest: "capture_frame blocks cs1 = (nf0, cs')"
    and nf: "nf = nb # nf0"
    using Cons.prems by (auto split: prod.splits)
  from capture_block_cells [OF blk] have
    a: "map fst nb = map fst block" and b: "map snd nb = [length cs ..< length cs1]"
    and c: "length cs \<le> length cs1" and d: "\<exists>ext. cs1 = cs @ ext"
    by auto
  from Cons.IH [OF rest] have
    a': "map (map fst) nf0 = map (map fst) blocks"
    and b': "concat (map (map snd) nf0) = [length cs1 ..< length cs']"
    and c': "length cs1 \<le> length cs'" and d': "\<exists>ext. cs' = cs1 @ ext"
    by auto
  have "[length cs ..< length cs1] @ [length cs1 ..< length cs'] = [length cs ..< length cs']"
    using c c' by (metis le_Suc_ex upt_add_eq_append)
  with a b a' b' nf have "map (map fst) nf = map (map fst) (block # blocks)"
    and "concat (map (map snd) nf) = [length cs ..< length cs']"
    by simp_all
  moreover from c c' have "length cs \<le> length cs'" by simp
  moreover from d d' have "\<exists>ext. cs' = cs @ ext" by auto
  ultimately show ?case by blast
qed

lemma capture_frame_lookup:
  assumes "capture_frame f cs = (nf, cs')"
      and "\<forall>b\<in>set f. \<forall>c\<in>snd ` set b. c < length cs"
  shows "(scan_blocks (rev f) x = None \<longrightarrow> scan_blocks (rev nf) x = None)
       \<and> (\<forall>c. scan_blocks (rev f) x = Some c \<longrightarrow>
             (\<exists>c'. scan_blocks (rev nf) x = Some c' \<and> length cs \<le> c' \<and> c' < length cs'
                   \<and> cs' ! c' = cs ! c))"
  using assms
proof (induction f arbitrary: cs nf cs')
  case Nil
  then show ?case by simp
next
  case (Cons block blocks)
  obtain nb cs1 nf0 where blk: "capture_block block cs = (nb, cs1)"
    and rest: "capture_frame blocks cs1 = (nf0, cs')"
    and nf: "nf = nb # nf0"
    using Cons.prems(1) by (auto split: prod.splits)
  from capture_block_cells [OF blk] obtain ext1 where
    ext1: "cs1 = cs @ ext1" and le1: "length cs \<le> length cs1"
    by auto
  from capture_frame_cells [OF rest] obtain ext2 where
    ext2: "cs' = cs1 @ ext2" and le2: "length cs1 \<le> length cs'"
    by auto
  have wfb: "\<forall>c\<in>snd ` set block. c < length cs"
    using Cons.prems(2) by simp
  have wf1: "\<forall>b\<in>set blocks. \<forall>c\<in>snd ` set b. c < length cs1"
    using Cons.prems(2) le1 by fastforce
  note B = capture_block_lookup [OF blk wfb, of x]
  note IH = Cons.IH [OF rest wf1]
  have split_old: "scan_blocks (rev (block # blocks)) x =
      (case scan_blocks (rev blocks) x of Some c \<Rightarrow> Some c | None \<Rightarrow> map_of block x)"
    by (simp add: scan_blocks_append split: option.splits)
  have split_new: "scan_blocks (rev nf) x =
      (case scan_blocks (rev nf0) x of Some c \<Rightarrow> Some c | None \<Rightarrow> map_of nb x)"
    using nf by (simp add: scan_blocks_append split: option.splits)
  show ?case
  proof (cases "scan_blocks (rev blocks) x")
    case None
    with IH have new_none: "scan_blocks (rev nf0) x = None" by simp
    show ?thesis
    proof (intro conjI allI impI)
      assume "scan_blocks (rev (block # blocks)) x = None"
      with split_old None have "map_of block x = None" by simp
      with B have "map_of nb x = None" by simp
      with split_new new_none show "scan_blocks (rev nf) x = None" by simp
    next
      fix c assume "scan_blocks (rev (block # blocks)) x = Some c"
      with split_old None have "map_of block x = Some c" by simp
      with B obtain c' where c': "map_of nb x = Some c'" "length cs \<le> c'" "c' < length cs1"
        "cs1 ! c' = cs ! c" by blast
      from c'(3) ext2 have "cs' ! c' = cs1 ! c'" by (simp add: nth_append)
      with c' le2 split_new new_none
      show "\<exists>c'. scan_blocks (rev nf) x = Some c' \<and> length cs \<le> c' \<and> c' < length cs'
                   \<and> cs' ! c' = cs ! c"
        by auto
    qed
  next
    case (Some c0)
    with IH obtain c' where c': "scan_blocks (rev nf0) x = Some c'" "length cs1 \<le> c'"
      "c' < length cs'" "cs' ! c' = cs1 ! c0" by blast
    from Some scan_blocks_SomeD [of "rev blocks" x c0] Cons.prems(2) have "c0 < length cs"
      by auto
    with ext1 have "cs1 ! c0 = cs ! c0" by (simp add: nth_append)
    with c' le1 split_old split_new Some show ?thesis by auto
  qed
qed


lemma capture_stack_cells:
  "capture_stack stack cs = (ns, cs') \<Longrightarrow>
     map (map (map fst)) ns = map (map (map fst)) stack
     \<and> concat (map (\<lambda>f. concat (map (map snd) f)) ns) = [length cs ..< length cs']
     \<and> length cs \<le> length cs' \<and> (\<exists>ext. cs' = cs @ ext)"
proof (induction stack arbitrary: cs ns cs')
  case Nil
  then show ?case by simp
next
  case (Cons frame frames)
  obtain nf cs1 ns0 where frm: "capture_frame frame cs = (nf, cs1)"
    and rest: "capture_stack frames cs1 = (ns0, cs')"
    and ns: "ns = nf # ns0"
    using Cons.prems by (auto split: prod.splits)
  from capture_frame_cells [OF frm] have
    a: "map (map fst) nf = map (map fst) frame"
    and b: "concat (map (map snd) nf) = [length cs ..< length cs1]"
    and c: "length cs \<le> length cs1" and d: "\<exists>ext. cs1 = cs @ ext"
    by auto
  from Cons.IH [OF rest] have
    a': "map (map (map fst)) ns0 = map (map (map fst)) frames"
    and b': "concat (map (\<lambda>f. concat (map (map snd) f)) ns0) = [length cs1 ..< length cs']"
    and c': "length cs1 \<le> length cs'" and d': "\<exists>ext. cs' = cs1 @ ext"
    by auto
  have "[length cs ..< length cs1] @ [length cs1 ..< length cs'] = [length cs ..< length cs']"
    using c c' by (metis le_Suc_ex upt_add_eq_append)
  with a b a' b' ns have "map (map (map fst)) ns = map (map (map fst)) (frame # frames)"
    and "concat (map (\<lambda>f. concat (map (map snd) f)) ns) = [length cs ..< length cs']"
    by simp_all
  moreover from c c' have "length cs \<le> length cs'" by simp
  moreover from d d' have "\<exists>ext. cs' = cs @ ext" by auto
  ultimately show ?case by blast
qed

lemma capture_stack_lookup:
  assumes "capture_stack stack cs = (ns, cs')"
      and "\<forall>f\<in>set stack. \<forall>b\<in>set f. \<forall>c\<in>snd ` set b. c < length cs"
  shows "(get_current_cell stack x = None \<longrightarrow> get_current_cell ns x = None)
       \<and> (\<forall>c. get_current_cell stack x = Some c \<longrightarrow>
             (\<exists>c'. get_current_cell ns x = Some c' \<and> length cs \<le> c' \<and> c' < length cs'
                   \<and> cs' ! c' = cs ! c))"
  using assms unfolding get_current_cell_def
proof (induction stack arbitrary: cs ns cs')
  case Nil
  then show ?case by simp
next
  case (Cons frame frames)
  obtain nf cs1 ns0 where frm: "capture_frame frame cs = (nf, cs1)"
    and rest: "capture_stack frames cs1 = (ns0, cs')"
    and ns: "ns = nf # ns0"
    using Cons.prems(1) by (auto split: prod.splits)
  from capture_frame_cells [OF frm] obtain ext1 where
    ext1: "cs1 = cs @ ext1" and le1: "length cs \<le> length cs1"
    by auto
  from capture_stack_cells [OF rest] obtain ext2 where
    ext2: "cs' = cs1 @ ext2" and le2: "length cs1 \<le> length cs'"
    by auto
  have wff: "\<forall>b\<in>set frame. \<forall>c\<in>snd ` set b. c < length cs"
    using Cons.prems(2) by simp
  have wf1: "\<forall>f\<in>set frames. \<forall>b\<in>set f. \<forall>c\<in>snd ` set b. c < length cs1"
    using Cons.prems(2) le1 by fastforce
  note F = capture_frame_lookup [OF frm wff, of x]
  note IH = Cons.IH [OF rest wf1]
  have split_old: "scan_frames (rev (frame # frames)) x =
      (case scan_frames (rev frames) x of Some c \<Rightarrow> Some c | None \<Rightarrow> scan_blocks (rev frame) x)"
    by (simp add: scan_frames_append split: option.splits)
  have split_new: "scan_frames (rev ns) x =
      (case scan_frames (rev ns0) x of Some c \<Rightarrow> Some c | None \<Rightarrow> scan_blocks (rev nf) x)"
    using ns by (simp add: scan_frames_append split: option.splits)
  show ?case
  proof (cases "scan_frames (rev frames) x")
    case None
    with IH have new_none: "scan_frames (rev ns0) x = None" by simp
    show ?thesis
    proof (intro conjI allI impI)
      assume "scan_frames (rev (frame # frames)) x = None"
      with split_old None have "scan_blocks (rev frame) x = None" by simp
      with F have "scan_blocks (rev nf) x = None" by simp
      with split_new new_none show "scan_frames (rev ns) x = None" by simp
    next
      fix c assume "scan_frames (rev (frame # frames)) x = Some c"
      with split_old None have "scan_blocks (rev frame) x = Some c" by simp
      with F obtain c' where c': "scan_blocks (rev nf) x = Some c'" "length cs \<le> c'"
        "c' < length cs1" "cs1 ! c' = cs ! c" by blast
      from c'(3) ext2 have "cs' ! c' = cs1 ! c'" by (simp add: nth_append)
      with c' le2 split_new new_none
      show "\<exists>c'. scan_frames (rev ns) x = Some c' \<and> length cs \<le> c' \<and> c' < length cs'
                   \<and> cs' ! c' = cs ! c"
        by auto
    qed
  next
    case (Some c0)
    with IH obtain c' where c': "scan_frames (rev ns0) x = Some c'" "length cs1 \<le> c'"
      "c' < length cs'" "cs' ! c' = cs1 ! c0" by blast
    from Some scan_frames_SomeD [of "rev frames" x c0] Cons.prems(2) have "c0 < length cs"
      by auto
    with ext1 have "cs1 ! c0 = cs ! c0" by (simp add: nth_append)
    with c' le1 split_old split_new Some show ?thesis by auto
  qed
qed

lemma walk_intermediates_env:
  "walk_intermediates (s\<lparr>env := e\<rparr>) ps val = walk_intermediates s ps val"
  by (induction ps arbitrary: val) (auto split: option.splits sum.splits)

lemma final_field_cell_env:
  "final_field_cell (s\<lparr>env := e\<rparr>) val f = final_field_cell s val f"
  by (simp add: final_field_cell_def)

lemma dotted_through_snapshot:
  assumes "length (split_dots q) \<noteq> 1"
      and "get_current_cell (cur_env s) (hd (split_dots q)) = Some c"
      and "get_current_cell (env_lists s ! ce) (hd (split_dots q)) = Some c'"
      and "cells s ! c' = cells s ! c"
  shows "get_qname_cell (s\<lparr>env := ce\<rparr>) q = get_qname_cell s q"
proof -
  have snap: "cur_env (s\<lparr>env := ce\<rparr>) = env_lists s ! ce"
    by (simp add: cur_env_def)
  have ex1: "exists_env (env_lists s ! ce) (hd (split_dots q))"
    and ex2: "exists_env (cur_env s) (hd (split_dots q))"
    using assms(2,3) by (simp_all add: exists_env_def get_current_cell_def)
  show ?thesis
    unfolding get_qname_cell_def Let_def snap
    using assms ex1 ex2
    by (simp add: walk_intermediates_env final_field_cell_env split: sum.splits)
qed

lemma invoke_function_body_env:
  assumes wf: "env s < length (env_lists s)"
      and wfc: "\<forall>ce. closure = Some ce \<longrightarrow> ce < length (env_lists s)"
      and call: "invoke_function rs m fd exprs vals closure self s = Inr (res, sF)"
  shows "\<exists>st5 fb ret st6. rs (fd_statements fd) st5 = Inr ((res, ret), st6)
           \<and> cur_env st5 = (case closure of None \<Rightarrow> cur_env s | Some ce \<Rightarrow> env_lists s ! ce) @ [[fb]]"
proof -
  let ?st2 = "(case closure of None \<Rightarrow> s | Some ce \<Rightarrow> s\<lparr>env := ce\<rparr>)
                 \<lparr>current_return_type := return_type fd,
                  current_return_interface := return_interface fd\<rparr>"
  from call obtain bindings st4 st5 ret st6 where
    s4: "(case self of
        None \<Rightarrow> Inr (set_cur_env (enter_func (cur_env ?st2)) ?st2)
      | Some owner \<Rightarrow>
          (case fdef_function (set_cur_env (enter_func (cur_env ?st2)) ?st2) ''selfo'' owner of
             Inl e \<Rightarrow> Inl e
           | Inr (ok, st4) \<Rightarrow> if ok then Inr st4 else Inl (Error NAME_ERROR))) = Inr st4"
    and inst: "install_bindings bindings st4 = Inr st5"
    and body: "rs (fd_statements fd) st5 = Inr ((res, ret), st6)"
    by (rule invoke_function_success)
  have wf2: "env ?st2 < length (env_lists ?st2)"
    using wf wfc by (cases closure) auto
  have cur2: "cur_env ?st2 = (case closure of None \<Rightarrow> cur_env s | Some ce \<Rightarrow> env_lists s ! ce)"
    by (cases closure) (simp_all add: cur_env_def)
  from callee_frame [OF wf2 s4] obtain fb where
    cur4: "cur_env st4 = cur_env ?st2 @ [fb # []]" and wf4: "env st4 < length (env_lists st4)"
    by auto
  from install_bindings_frame [OF inst wf4 cur4] obtain fb' where
    "cur_env st5 = cur_env ?st2 @ [[fb']]"
    by auto
  with cur2 body show ?thesis by auto
qed

lemma lookup_below_top_block:
  "map_of fb x = None \<Longrightarrow> get_current_cell (stack @ [[fb]]) x = get_current_cell stack x"
  by (simp add: get_current_cell_def)

text \<open>
  C2: evaluating an anonymous function expression returns (given that the names of the
  function and of its parameters have a type) a function value whose closure environment
  is a new environment list, a copy of the whole current stack in which every binding has
  a fresh cell of its own: the copy has the same frames, blocks and names, its cells are
  the addresses created by the evaluation, one per binding, and the old cells, the heap
  and the current environment are left as they were. A name unbound in the current
  environment is unbound in the copy; a name bound to a cell is bound in the copy to a
  fresh cell that holds the same value, so for an Int, String or Bool the captured value
  and for an object or function the same reference into the shared heap. A later
  assignment to the name in the defining environment changes the original cell and leaves
  the snapshot's cell at the captured value; a dotted name through the snapshot resolves to
  the same field cell as through the defining environment, so the fields of a captured
  object are shared. When the function value is invoked, the body runs in the snapshot
  with one new frame on top, and a name that is no parameter is looked up in the snapshot.
\<close>

theorem closure_snapshot:
  assumes wf: "env st < length (env_lists st)"
      and wfc: "\<forall>frame\<in>set (cur_env st). \<forall>block\<in>set frame. \<forall>c\<in>snd ` set block.
                  c < length (cells st)"
      and rn: "return_of_name lambda_name = Inr (rtype, rinterface)"
      and an: "annotate_args lambda_args = Inr formals"
  shows "\<exists>fv st1 snap.
      eval_expr (Suc n) (Func_lit lambda_name lambda_args stmts) st
        = Inr (Value Type_FUNCTION (PFunc fv), st1)
    \<and> closure_env fv = Some (length (env_lists st))
    \<and> env_lists st1 = env_lists st @ [snap] \<and> env st1 = env st \<and> heap st1 = heap st
    \<and> (\<exists>ext. cells st1 = cells st @ ext)
    \<and> map (map (map fst)) snap = map (map (map fst)) (cur_env st)
    \<and> concat (map (\<lambda>frame. concat (map (map snd) frame)) snap)
        = [length (cells st) ..< length (cells st1)]
    \<and> (\<forall>x. get_current_cell (cur_env st) x = None \<longrightarrow> get_current_cell snap x = None)
    \<and> (\<forall>x c. get_current_cell (cur_env st) x = Some c \<longrightarrow>
         (\<exists>c'. get_current_cell snap x = Some c'
             \<and> length (cells st) \<le> c' \<and> c' < length (cells st1)
             \<and> cells st1 ! c' = cells st ! c
             \<and> (\<forall>m w st2. CHR ''.'' \<notin> set x \<and> set_qname_value m st1 x w = Inr st2 \<longrightarrow>
                   cells st2 ! c' = cells st ! c
                 \<and> (\<exists>ty. type_from_name x = Inr ty
                        \<and> cells st2 ! c = (if is_nil_value w then Value ty PNone else w)))
             \<and> (\<forall>q. hd (split_dots q) = x \<and> length (split_dots q) \<noteq> 1 \<longrightarrow>
                   get_qname_cell (st1\<lparr>env := length (env_lists st)\<rparr>) q = get_qname_cell st1 q)))
    \<and> (\<forall>rs m fd exprs vals self s res sF.
         env s < length (env_lists s) \<and> length (env_lists st) < length (env_lists s)
         \<and> invoke_function rs m fd exprs vals (closure_env fv) self s = Inr (res, sF) \<longrightarrow>
         (\<exists>st5 fb ret st6. rs (fd_statements fd) st5 = Inr ((res, ret), st6)
            \<and> cur_env st5 = env_lists s ! length (env_lists st) @ [[fb]]
            \<and> (\<forall>x. map_of fb x = None \<longrightarrow>
                  get_current_cell (cur_env st5) x
                    = get_current_cell (env_lists s ! length (env_lists st)) x)))"
proof -
  obtain snap cs' where cap: "capture_stack (cur_env st) (cells st) = (snap, cs')"
    by (cases "capture_stack (cur_env st) (cells st)")
  define st1 where "st1 = st\<lparr>env_lists := env_lists st @ [snap], cells := cs',
                              next_fv_id := next_fv_id st + 1\<rparr>"
  define fv where "fv = FunctionValue (next_fv_id st)
      (Func_def FUNC_NODE lambda_name formals stmts rtype rinterface (map declared_type formals))
      (map declared_type formals) (Some (length (env_lists st)))"
  have ev: "eval_expr (Suc n) (Func_lit lambda_name lambda_args stmts) st
              = Inr (Value Type_FUNCTION (PFunc fv), st1)"
    using rn an cap by (simp add: eval_expr_body_def capture_env_for_lambda_def st1_def fv_def)
  have clo: "closure_env fv = Some (length (env_lists st))" by (simp add: fv_def)
  have fields: "env_lists st1 = env_lists st @ [snap]" "env st1 = env st" "heap st1 = heap st"
    "cells st1 = cs'"
    by (simp_all add: st1_def)
  from capture_stack_cells [OF cap] obtain ext where
    names: "map (map (map fst)) snap = map (map (map fst)) (cur_env st)"
    and fresh: "concat (map (\<lambda>frame. concat (map (map snd) frame)) snap)
                  = [length (cells st) ..< length cs']"
    and ext: "cs' = cells st @ ext"
    by auto
  have cur1: "cur_env st1 = cur_env st"
    using wf by (simp add: st1_def cur_env_def nth_append)
  have snap1: "env_lists st1 ! length (env_lists st) = snap"
    by (simp add: st1_def)
  have unbound: "\<forall>x. get_current_cell (cur_env st) x = None \<longrightarrow> get_current_cell snap x = None"
    using capture_stack_lookup [OF cap wfc] by blast
  have bound: "\<forall>x c. get_current_cell (cur_env st) x = Some c \<longrightarrow>
         (\<exists>c'. get_current_cell snap x = Some c'
             \<and> length (cells st) \<le> c' \<and> c' < length (cells st1)
             \<and> cells st1 ! c' = cells st ! c
             \<and> (\<forall>m w st2. CHR ''.'' \<notin> set x \<and> set_qname_value m st1 x w = Inr st2 \<longrightarrow>
                   cells st2 ! c' = cells st ! c
                 \<and> (\<exists>ty. type_from_name x = Inr ty
                        \<and> cells st2 ! c = (if is_nil_value w then Value ty PNone else w)))
             \<and> (\<forall>q. hd (split_dots q) = x \<and> length (split_dots q) \<noteq> 1 \<longrightarrow>
                   get_qname_cell (st1\<lparr>env := length (env_lists st)\<rparr>) q = get_qname_cell st1 q))"
  proof (intro allI impI)
    fix x c
    assume look: "get_current_cell (cur_env st) x = Some c"
    from capture_stack_lookup [OF cap wfc, of x] look obtain c' where
      c': "get_current_cell snap x = Some c'" "length (cells st) \<le> c'" "c' < length cs'"
      "cs' ! c' = cells st ! c"
      by blast
    from look scan_frames_SomeD [of "rev (cur_env st)" x c] wfc have c_lt: "c < length (cells st)"
      by (auto simp: get_current_cell_def)
    have same: "cells st1 ! c = cells st ! c"
      using c_lt ext fields(4) by (simp add: nth_append)
    have assign: "\<forall>m w st2. CHR ''.'' \<notin> set x \<and> set_qname_value m st1 x w = Inr st2 \<longrightarrow>
                   cells st2 ! c' = cells st ! c
                 \<and> (\<exists>ty. type_from_name x = Inr ty
                        \<and> cells st2 ! c = (if is_nil_value w then Value ty PNone else w))"
    proof (intro allI impI)
      fix m w st2
      assume a: "CHR ''.'' \<notin> set x \<and> set_qname_value m st1 x w = Inr st2"
      from look cur1 have look1: "get_current_cell (cur_env st1) x = Some c" by simp
      from a set_qname_value_plain [OF _ look1, of m w st2] obtain ty where
        ty: "type_from_name x = Inr ty"
        and st2: "st2 = st1\<lparr>cells := (cells st1)[c := (if is_nil_value w then Value ty PNone else w)]\<rparr>"
        by blast
      from c_lt c'(2) have ne: "c \<noteq> c'" by simp
      from st2 ne c'(4) fields(4) have "cells st2 ! c' = cells st ! c" by simp
      moreover from st2 c_lt ext fields(4)
      have "cells st2 ! c = (if is_nil_value w then Value ty PNone else w)" by simp
      ultimately show "cells st2 ! c' = cells st ! c
                 \<and> (\<exists>ty. type_from_name x = Inr ty
                        \<and> cells st2 ! c = (if is_nil_value w then Value ty PNone else w))"
        using ty by blast
    qed
    have dotted: "\<forall>q. hd (split_dots q) = x \<and> length (split_dots q) \<noteq> 1 \<longrightarrow>
                   get_qname_cell (st1\<lparr>env := length (env_lists st)\<rparr>) q = get_qname_cell st1 q"
    proof (intro allI impI)
      fix q
      assume q: "hd (split_dots q) = x \<and> length (split_dots q) \<noteq> 1"
      have l1: "get_current_cell (cur_env st1) (hd (split_dots q)) = Some c"
        using q look cur1 by simp
      have l2: "get_current_cell (env_lists st1 ! length (env_lists st)) (hd (split_dots q)) = Some c'"
        using q c'(1) snap1 by simp
      have eq: "cells st1 ! c' = cells st1 ! c"
        using c'(4) same fields(4) by simp
      from q have d: "length (split_dots q) \<noteq> 1" by simp
      show "get_qname_cell (st1\<lparr>env := length (env_lists st)\<rparr>) q = get_qname_cell st1 q"
        using dotted_through_snapshot [OF d l1 l2 eq] .
    qed
    from c' fields(4) assign dotted
    show "\<exists>c'. get_current_cell snap x = Some c'
             \<and> length (cells st) \<le> c' \<and> c' < length (cells st1)
             \<and> cells st1 ! c' = cells st ! c
             \<and> (\<forall>m w st2. CHR ''.'' \<notin> set x \<and> set_qname_value m st1 x w = Inr st2 \<longrightarrow>
                   cells st2 ! c' = cells st ! c
                 \<and> (\<exists>ty. type_from_name x = Inr ty
                        \<and> cells st2 ! c = (if is_nil_value w then Value ty PNone else w)))
             \<and> (\<forall>q. hd (split_dots q) = x \<and> length (split_dots q) \<noteq> 1 \<longrightarrow>
                   get_qname_cell (st1\<lparr>env := length (env_lists st)\<rparr>) q = get_qname_cell st1 q)"
      by blast
  qed
  have invoke: "\<forall>rs m fd exprs vals self s res sF.
         env s < length (env_lists s) \<and> length (env_lists st) < length (env_lists s)
         \<and> invoke_function rs m fd exprs vals (closure_env fv) self s = Inr (res, sF) \<longrightarrow>
         (\<exists>st5 fb ret st6. rs (fd_statements fd) st5 = Inr ((res, ret), st6)
            \<and> cur_env st5 = env_lists s ! length (env_lists st) @ [[fb]]
            \<and> (\<forall>x. map_of fb x = None \<longrightarrow>
                  get_current_cell (cur_env st5) x
                    = get_current_cell (env_lists s ! length (env_lists st)) x))"
  proof (intro allI impI)
    fix rs m fd exprs vals self s res sF
    assume a: "env s < length (env_lists s) \<and> length (env_lists st) < length (env_lists s)
         \<and> invoke_function rs m fd exprs vals (closure_env fv) self s = Inr (res, sF)"
    then have w1: "env s < length (env_lists s)"
      and w2: "\<forall>ce. Some (length (env_lists st)) = Some ce \<longrightarrow> ce < length (env_lists s)"
      and call: "invoke_function rs m fd exprs vals (Some (length (env_lists st))) self s = Inr (res, sF)"
      using clo by simp_all
    from invoke_function_body_env [OF w1 w2 call] obtain st5 fb ret st6 where
      body: "rs (fd_statements fd) st5 = Inr ((res, ret), st6)"
      and cur5: "cur_env st5 = env_lists s ! length (env_lists st) @ [[fb]]"
      by auto
    from cur5 have "\<forall>x. map_of fb x = None \<longrightarrow>
                  get_current_cell (cur_env st5) x
                    = get_current_cell (env_lists s ! length (env_lists st)) x"
      by (simp add: lookup_below_top_block)
    with body cur5
    show "\<exists>st5 fb ret st6. rs (fd_statements fd) st5 = Inr ((res, ret), st6)
            \<and> cur_env st5 = env_lists s ! length (env_lists st) @ [[fb]]
            \<and> (\<forall>x. map_of fb x = None \<longrightarrow>
                  get_current_cell (cur_env st5) x
                    = get_current_cell (env_lists s ! length (env_lists st)) x)"
      by blast
  qed
  have cells_ext: "\<exists>ext. cells st1 = cells st @ ext" using ext fields(4) by simp
  have fresh1: "concat (map (\<lambda>frame. concat (map (map snd) frame)) snap)
                  = [length (cells st) ..< length (cells st1)]"
    using fresh fields(4) by simp
  show ?thesis
    apply (rule exI [of _ fv], rule exI [of _ st1], rule exI [of _ snap])
    using ev clo fields(1,2,3) cells_ext names fresh1 unbound bound invoke
    apply (intro conjI)
    apply assumption+
    done
qed

theorem closure_snapshot_witness:
  "(\<exists>fv st1 snap.
       eval_expr (Suc 0) (Func_lit ''lami'' [] [Return_stmt (Some (Qname ''xi''))]) closure_state
         = Inr (Value Type_FUNCTION (PFunc fv), st1)
     \<and> closure_env fv = Some 1
     \<and> env_lists st1 = env_lists closure_state @ [snap]
     \<and> (\<exists>c'. get_current_cell snap ''xi'' = Some c' \<and> 3 \<le> c'
             \<and> cells st1 ! c' = Value Type_INT (PInt 1))
     \<and> (\<exists>c'. get_current_cell snap ''ao'' = Some c' \<and> 3 \<le> c'
             \<and> cells st1 ! c' = Value Type_OBJECT (PObj 1))
     \<and> get_qname_cell (st1\<lparr>env := 1\<rparr>) ''ao.xi'' = get_qname_cell st1 ''ao.xi'')
   \<and> output_of (run 10 closure_program []) = Inr [''1'', ''2'']
   \<and> output_of (run 10 closure_object_program []) = Inr [''5'']"
proof -
  have wf: "env closure_state < length (env_lists closure_state)"
    by (simp add: closure_state_def init_interp_def)
  have wfc: "\<forall>frame\<in>set (cur_env closure_state). \<forall>block\<in>set frame. \<forall>c\<in>snd ` set block.
               c < length (cells closure_state)"
    by (simp add: closure_state_def init_interp_def cur_env_def)
  have rn: "return_of_name ''lami'' = Inr (Type_INT, None)" by code_simp
  have an: "annotate_args [] = Inr []" by simp
  have len: "length (env_lists closure_state) = 1" "length (cells closure_state) = 3"
    by (simp_all add: closure_state_def init_interp_def)
  have xi: "get_current_cell (cur_env closure_state) ''xi'' = Some 0"
    and ao: "get_current_cell (cur_env closure_state) ''ao'' = Some 1"
    by code_simp+
  have vals: "cells closure_state ! 0 = Value Type_INT (PInt 1)"
    "cells closure_state ! 1 = Value Type_OBJECT (PObj 1)"
    by (simp_all add: closure_state_def init_interp_def)
  have q: "hd (split_dots ''ao.xi'') = ''ao'' \<and> length (split_dots ''ao.xi'') \<noteq> 1"
    by simp
  from closure_snapshot [OF wf wfc rn an, of 0 "[Return_stmt (Some (Qname ''xi''))]"]
  obtain fv st1 snap where
    ev: "eval_expr (Suc 0) (Func_lit ''lami'' [] [Return_stmt (Some (Qname ''xi''))]) closure_state
           = Inr (Value Type_FUNCTION (PFunc fv), st1)"
    and clo: "closure_env fv = Some (length (env_lists closure_state))"
    and el: "env_lists st1 = env_lists closure_state @ [snap]"
    and bound: "\<forall>x c. get_current_cell (cur_env closure_state) x = Some c \<longrightarrow>
         (\<exists>c'. get_current_cell snap x = Some c'
             \<and> length (cells closure_state) \<le> c' \<and> c' < length (cells st1)
             \<and> cells st1 ! c' = cells closure_state ! c
             \<and> (\<forall>m w st2. CHR ''.'' \<notin> set x \<and> set_qname_value m st1 x w = Inr st2 \<longrightarrow>
                   cells st2 ! c' = cells closure_state ! c
                 \<and> (\<exists>ty. type_from_name x = Inr ty
                        \<and> cells st2 ! c = (if is_nil_value w then Value ty PNone else w)))
             \<and> (\<forall>q. hd (split_dots q) = x \<and> length (split_dots q) \<noteq> 1 \<longrightarrow>
                   get_qname_cell (st1\<lparr>env := length (env_lists closure_state)\<rparr>) q
                     = get_qname_cell st1 q))"
    by (elim exE conjE) (rule that; assumption)
  from bound xi obtain c1 where
    c1: "get_current_cell snap ''xi'' = Some c1" "length (cells closure_state) \<le> c1"
        "cells st1 ! c1 = cells closure_state ! 0"
    by blast
  from bound ao obtain c2 where
    c2: "get_current_cell snap ''ao'' = Some c2" "length (cells closure_state) \<le> c2"
        "cells st1 ! c2 = cells closure_state ! 1"
    and dotted: "\<forall>q. hd (split_dots q) = ''ao'' \<and> length (split_dots q) \<noteq> 1 \<longrightarrow>
                   get_qname_cell (st1\<lparr>env := length (env_lists closure_state)\<rparr>) q
                     = get_qname_cell st1 q"
    by blast
  from dotted q have d: "get_qname_cell (st1\<lparr>env := 1\<rparr>) ''ao.xi'' = get_qname_cell st1 ''ao.xi''"
    unfolding len by blast
  have runs: "output_of (run 10 closure_program []) = Inr [''1'', ''2'']"
    "output_of (run 10 closure_object_program []) = Inr [''5'']"
    by code_simp+
  have "\<exists>fv st1 snap.
       eval_expr (Suc 0) (Func_lit ''lami'' [] [Return_stmt (Some (Qname ''xi''))]) closure_state
         = Inr (Value Type_FUNCTION (PFunc fv), st1)
     \<and> closure_env fv = Some 1
     \<and> env_lists st1 = env_lists closure_state @ [snap]
     \<and> (\<exists>c'. get_current_cell snap ''xi'' = Some c' \<and> 3 \<le> c'
             \<and> cells st1 ! c' = Value Type_INT (PInt 1))
     \<and> (\<exists>c'. get_current_cell snap ''ao'' = Some c' \<and> 3 \<le> c'
             \<and> cells st1 ! c' = Value Type_OBJECT (PObj 1))
     \<and> get_qname_cell (st1\<lparr>env := 1\<rparr>) ''ao.xi'' = get_qname_cell st1 ''ao.xi''"
    using ev clo el c1 c2 d unfolding len vals by blast
  with runs show ?thesis by blast
qed
end
